theory Spec2Isabelle
  imports Complex_Main "HOL-Library.Sublist"
begin

section \<open>Python values, exceptions and the library operations the code calls\<close>

text \<open>
  The agent is Python. Values that come out of \<^verbatim>\<open>json.loads\<close> on a model reply are
  modelled by \<open>pyval\<close>; a \<^verbatim>\<open>dict\<close> is an association list in insertion order.
  Text is \<open>string\<close>; \<^verbatim>\<open>float\<close> arithmetic (the profit column and its sums) is idealised
  as arithmetic on \<open>real\<close>.
\<close>

datatype pyval =
    PNone
  | PBool bool
  | PInt int
  | PFloat real
  | PStr string
  | PList "pyval list"
  | PDict "(string \<times> pyval) list"

text \<open>Every \<^verbatim>\<open>raise\<close> of the source, and every exception of a library call, is a value.\<close>

datatype exn =
    ValueError string
  | AttributeError string
  | TypeError string
  | KeyError string
  | IndexError string
  | DatasetConfigError string
  | OtherError string

text \<open>The value of one cell of the loaded table: a missing value, a number or text.\<close>

datatype cell = CNaN | CNum real | CStr string

text \<open>
  Library operations whose result the repository's code only passes on (pandas, \<^verbatim>\<open>re\<close>,
  \<^verbatim>\<open>json\<close>, number formatting, the iteration order of a \<^verbatim>\<open>set\<close>) are parameters of
  the model, collected in one record. Every theorem below holds for whatever these
  operations compute, unless it states an assumption about one of them.
  \<^item> \<open>re_contains pat\<close>: \<^verbatim>\<open>Series.str.contains(pat, case=False, na=False)\<close>; the
    pattern is compiled first (pandas reads it as a regular expression), which can raise,
    and the compiled pattern is then searched in every cell's text.
  \<^item> \<open>pd_eq_seq cells v\<close>: \<^verbatim>\<open>series == v\<close> for a list or mapping \<open>v\<close>.
  \<^item> \<open>py_repr v\<close>: \<^verbatim>\<open>str(v)\<close> for a float, list or mapping.
  \<^item> \<open>num_str x\<close>: the text of a numeric cell.
  \<^item> \<open>fmt_2f x\<close>: \<^verbatim>\<open>format(x, ",.2f")\<close>.
  \<^item> \<open>json_loads s\<close>: \<^verbatim>\<open>json.loads(s)\<close>; \<open>None\<close> is \<^verbatim>\<open>JSONDecodeError\<close>.
  \<^item> \<open>set_order xs\<close>: the order in which a \<^verbatim>\<open>set\<close> built from \<open>xs\<close> is iterated.
  \<^item> \<open>groupby_sum kvs\<close>, \<open>value_counts ks\<close>, \<open>sort_values_desc kvs\<close>: the pandas
    operations of these names, ending in \<^verbatim>\<open>to_dict()\<close>.
\<close>

record pylib =
  re_contains :: "pyval \<Rightarrow> exn + (string \<Rightarrow> bool)"
  pd_eq_seq :: "cell list \<Rightarrow> pyval \<Rightarrow> exn + bool list"
  py_repr :: "pyval \<Rightarrow> string"
  num_str :: "real \<Rightarrow> string"
  fmt_2f :: "real \<Rightarrow> string"
  json_loads :: "string \<Rightarrow> pyval option"
  set_order :: "string list \<Rightarrow> string list"
  groupby_sum :: "(cell \<times> real) list \<Rightarrow> (cell \<times> real) list"
  value_counts :: "cell list \<Rightarrow> (cell \<times> nat) list"
  sort_values_desc :: "(cell \<times> real) list \<Rightarrow> (cell \<times> real) list"

subsection \<open>Integers and text\<close>

definition digit_char :: "nat \<Rightarrow> char" where
  "digit_char d = ''0123456789'' ! (d mod 10)"

text \<open>The decimal digits of a natural number, as \<^verbatim>\<open>str(n)\<close> writes them.\<close>

function str_nat :: "nat \<Rightarrow> string" where
  "str_nat n = (if n < 10 then [digit_char n] else str_nat (n div 10) @ [digit_char n])"
  by pat_completeness auto
termination
  by (relation "measure (\<lambda>n. n)") auto

declare str_nat.simps [simp del]

fun group3 :: "string \<Rightarrow> string" where
  "group3 (a # b # c # d # ds) = a # b # c # CHR '','' # group3 (d # ds)"
| "group3 ds = ds"

text \<open>\<^verbatim>\<open>format(n, ",")\<close> for a natural number: a comma before every third digit.\<close>

definition fmt_nat_comma :: "nat \<Rightarrow> string" where
  "fmt_nat_comma n = rev (group3 (rev (str_nat n)))"

definition str_int :: "int \<Rightarrow> string" where
  "str_int i = (if i < 0 then CHR ''-'' # str_nat (nat (- i)) else str_nat (nat i))"

text \<open>\<^verbatim>\<open>format(i, "02d")\<close>: the sign counts towards the width of two.\<close>

definition pad_02d :: "int \<Rightarrow> string" where
  "pad_02d i = (if 0 \<le> i \<and> i < 10 then CHR ''0'' # str_int i else str_int i)"

text \<open>\<^verbatim>\<open>str(v)\<close>, as an f-string field \<^verbatim>\<open>{v}\<close> computes it.\<close>

definition py_str :: "pylib \<Rightarrow> pyval \<Rightarrow> string" where
  "py_str L v =
     (case v of
        PNone \<Rightarrow> ''None''
      | PBool b \<Rightarrow> (if b then ''True'' else ''False'')
      | PInt i \<Rightarrow> str_int i
      | PStr s \<Rightarrow> s
      | _ \<Rightarrow> py_repr L v)"

text \<open>
  The f-string field \<^verbatim>\<open>{v:02d}\<close>: integers (and booleans, which are integers in Python)
  are formatted; a float or a string raises \<^verbatim>\<open>ValueError\<close>, anything else
  \<^verbatim>\<open>TypeError\<close>.
\<close>

definition squote :: string where
  "squote = [CHR 0x27]"

definition unknown_format_code :: "string \<Rightarrow> string" where
  "unknown_format_code ty =
     ''Unknown format code '' @ squote @ ''d'' @ squote @ '' for object of type '' @ squote @ ty @ squote"

definition format_02d :: "pyval \<Rightarrow> exn + string" where
  "format_02d v =
     (case v of
        PInt i \<Rightarrow> Inr (pad_02d i)
      | PBool b \<Rightarrow> Inr (if b then ''01'' else ''00'')
      | PFloat x \<Rightarrow> Inl (ValueError (unknown_format_code ''float''))
      | PStr s \<Rightarrow> Inl (ValueError (unknown_format_code ''str''))
      | PNone \<Rightarrow> Inl (TypeError ''unsupported format string passed to NoneType.__format__'')
      | PList xs \<Rightarrow> Inl (TypeError ''unsupported format string passed to list.__format__'')
      | PDict kvs \<Rightarrow> Inl (TypeError ''unsupported format string passed to dict.__format__''))"

text \<open>Python truthiness, as \<^verbatim>\<open>if v\<close>, \<^verbatim>\<open>not v\<close> and \<^verbatim>\<open>v or d\<close> use it.\<close>

definition truthy :: "pyval \<Rightarrow> bool" where
  "truthy v =
     (case v of
        PNone \<Rightarrow> False
      | PBool b \<Rightarrow> b
      | PInt i \<Rightarrow> i \<noteq> 0
      | PFloat x \<Rightarrow> x \<noteq> 0
      | PStr s \<Rightarrow> s \<noteq> []
      | PList xs \<Rightarrow> xs \<noteq> []
      | PDict kvs \<Rightarrow> kvs \<noteq> [])"

section \<open>The dataset (data_loader.py)\<close>

definition REQUIRED_COLUMNS :: "string list" where
  "REQUIRED_COLUMNS =
     [''entity_name'', ''property_name'', ''tenant_name'', ''ledger_type'', ''ledger_group'',
      ''ledger_category'', ''ledger_code'', ''ledger_description'', ''month'', ''quarter'',
      ''year'', ''profit'']"

definition PROPERTY_COLUMN :: string where "PROPERTY_COLUMN = ''property_name''"
definition TENANT_COLUMN :: string where "TENANT_COLUMN = ''tenant_name''"
definition VALUE_COLUMN :: string where "VALUE_COLUMN = ''profit''"
definition YEAR_COLUMN :: string where "YEAR_COLUMN = ''year''"
definition MONTH_COLUMN :: string where "MONTH_COLUMN = ''month''"

text \<open>
  A row of the frame that \<^verbatim>\<open>get_assets_df\<close> returns. The loader has coerced three
  columns: \<open>profit\<close> is a number with missing values replaced by zero, \<open>year\<close> is a
  number or missing, \<open>month\<close> is text. Every other column holds what the file held.
\<close>

record row =
  profit :: real
  year :: "real option"
  month :: string
  other :: "string \<Rightarrow> cell"

record dataframe =
  columns :: "string list"
  rows :: "row list"

definition cell_of :: "row \<Rightarrow> string \<Rightarrow> cell" where
  "cell_of r c =
     (if c = VALUE_COLUMN then CNum (profit r)
      else if c = YEAR_COLUMN then (case year r of None \<Rightarrow> CNaN | Some y \<Rightarrow> CNum y)
      else if c = MONTH_COLUMN then CStr (month r)
      else other r c)"

text \<open>\<^verbatim>\<open>_validate_columns\<close>: the names of the missing required columns, joined.\<close>

fun join :: "string \<Rightarrow> string list \<Rightarrow> string" where
  "join sep [] = []"
| "join sep [x] = x"
| "join sep (x # y # ys) = x @ sep @ join sep (y # ys)"

definition validate_columns :: "string list \<Rightarrow> exn + unit" where
  "validate_columns cols =
     (let missing = filter (\<lambda>col. col \<notin> set cols) REQUIRED_COLUMNS
      in if missing \<noteq> []
         then Inl (DatasetConfigError
                (''Dataset is missing required columns: '' @ join '', '' missing))
         else Inr ())"

text \<open>\<^verbatim>\<open>series.astype(str)\<close> on one cell.\<close>

definition astype_str :: "pylib \<Rightarrow> cell \<Rightarrow> string" where
  "astype_str L c = (case c of CNaN \<Rightarrow> ''nan'' | CNum x \<Rightarrow> num_str L x | CStr s \<Rightarrow> s)"

text \<open>\<^verbatim>\<open>df[mask]\<close>: the rows whose mask entry is true.\<close>

definition select_mask :: "'a list \<Rightarrow> bool list \<Rightarrow> 'a list" where
  "select_mask xs bs = map fst (filter snd (zip xs bs))"

text \<open>\<^verbatim>\<open>cell == v\<close> for a scalar \<open>v\<close>: numbers compare by value, text with text.\<close>

definition scalar_eq :: "cell \<Rightarrow> pyval \<Rightarrow> bool" where
  "scalar_eq c v =
     (case c of
        CNaN \<Rightarrow> False
      | CNum x \<Rightarrow>
          (case v of
             PInt i \<Rightarrow> x = of_int i
           | PFloat y \<Rightarrow> x = y
           | PBool b \<Rightarrow> x = (if b then 1 else 0)
           | _ \<Rightarrow> False)
      | CStr s \<Rightarrow> (case v of PStr t \<Rightarrow> s = t | _ \<Rightarrow> False))"

text \<open>\<^verbatim>\<open>subset[subset[column] == value]\<close>.\<close>

definition filter_eq :: "pylib \<Rightarrow> string \<Rightarrow> pyval \<Rightarrow> row list \<Rightarrow> exn + row list" where
  "filter_eq L column v rs =
     (case v of
        PList xs \<Rightarrow>
          (case pd_eq_seq L (map (\<lambda>r. cell_of r column) rs) v of
             Inl e \<Rightarrow> Inl e
           | Inr bs \<Rightarrow> Inr (select_mask rs bs))
      | PDict kvs \<Rightarrow>
          (case pd_eq_seq L (map (\<lambda>r. cell_of r column) rs) v of
             Inl e \<Rightarrow> Inl e
           | Inr bs \<Rightarrow> Inr (select_mask rs bs))
      | _ \<Rightarrow> Inr (filter (\<lambda>r. scalar_eq (cell_of r column) v) rs))"

text \<open>
  \<^verbatim>\<open>subset[subset[column].astype(str).str.contains(pat, case=False, na=False)]\<close>.
\<close>

definition filter_contains :: "pylib \<Rightarrow> string \<Rightarrow> pyval \<Rightarrow> row list \<Rightarrow> exn + row list" where
  "filter_contains L column pat rs =
     (case re_contains L pat of
        Inl e \<Rightarrow> Inl e
      | Inr p \<Rightarrow> Inr (filter (\<lambda>r. p (astype_str L (cell_of r column))) rs))"

definition filter_by_property :: "pylib \<Rightarrow> dataframe \<Rightarrow> pyval \<Rightarrow> exn + row list" where
  "filter_by_property L df property_query =
     filter_contains L PROPERTY_COLUMN property_query (rows df)"

definition sum_profit :: "row list \<Rightarrow> real" where
  "sum_profit rs = sum_list (map profit rs)"

subsection \<open>compare_assets_by_price\<close>

record asset_value =
  av_property_name :: cell
  av_value :: real
  av_records :: nat

record comparison =
  asset_1 :: asset_value
  asset_2 :: asset_value
  difference :: real

definition not_found_msg :: "pylib \<Rightarrow> pyval \<Rightarrow> string" where
  "not_found_msg L property_query =
     ''Property with name like '' @ squote @ py_str L property_query @ squote @ '' not found in dataset.''"

definition aggregate_value :: "pylib \<Rightarrow> dataframe \<Rightarrow> pyval \<Rightarrow> exn + asset_value" where
  "aggregate_value L df property_query =
     (case filter_by_property L df property_query of
        Inl e \<Rightarrow> Inl e
      | Inr sub \<Rightarrow>
          (case sub of
             [] \<Rightarrow> Inl (ValueError (not_found_msg L property_query))
           | r # _ \<Rightarrow>
               Inr \<lparr> av_property_name = cell_of r PROPERTY_COLUMN,
                     av_value = sum_profit sub,
                     av_records = length sub \<rparr>))"

text \<open>
  \<open>D\<close> is what \<^verbatim>\<open>get_assets_df()\<close> gives: the loaded frame, or the exception of a failed
  load.
\<close>

definition compare_assets_by_price ::
  "pylib \<Rightarrow> exn + dataframe \<Rightarrow> pyval \<Rightarrow> pyval \<Rightarrow> exn + comparison" where
  "compare_assets_by_price L D address1 address2 =
     (case D of
        Inl e \<Rightarrow> Inl e
      | Inr df \<Rightarrow>
          (case aggregate_value L df address1 of
             Inl e \<Rightarrow> Inl e
           | Inr a1 \<Rightarrow>
               (case aggregate_value L df address2 of
                  Inl e \<Rightarrow> Inl e
                | Inr a2 \<Rightarrow>
                    Inr \<lparr> asset_1 = a1, asset_2 = a2,
                          difference = av_value a1 - av_value a2 \<rparr>)))"


subsection \<open>compute_total_pnl\<close>

definition month_requires_year_msg :: string where
  "month_requires_year_msg =
     ''To filter by month, you must also specify the year (e.g., '' @ squote @
     ''January 2025'' @ squote @ '').''"

definition no_records_msg :: "string \<Rightarrow> string" where
  "no_records_msg time_period =
     ''No financial records found for the period: '' @ time_period @ ''.''"

text \<open>The f-string \<^verbatim>\<open>f"{year}-M{month:02d}"\<close>.\<close>

definition month_str :: "pylib \<Rightarrow> pyval \<Rightarrow> pyval \<Rightarrow> exn + string" where
  "month_str L y m =
     (case format_02d m of
        Inl e \<Rightarrow> Inl e
      | Inr mm \<Rightarrow> Inr (py_str L y @ ''-M'' @ mm))"

text \<open>
  The rows \<^verbatim>\<open>compute_total_pnl\<close> sums: the value of its variable \<^verbatim>\<open>subset\<close> when the
  two filters have run.
\<close>

definition pnl_subset :: "pylib \<Rightarrow> dataframe \<Rightarrow> pyval \<Rightarrow> pyval \<Rightarrow> exn + row list" where
  "pnl_subset L df y m =
     (case (if y \<noteq> PNone then filter_eq L YEAR_COLUMN y (rows df) else Inr (rows df)) of
        Inl e \<Rightarrow> Inl e
      | Inr sub \<Rightarrow>
          if m \<noteq> PNone then
            (if y = PNone then Inl (ValueError month_requires_year_msg)
             else
               (case month_str L y m of
                  Inl e \<Rightarrow> Inl e
                | Inr ms \<Rightarrow> filter_eq L MONTH_COLUMN (PStr ms) sub))
          else Inr sub)"

definition compute_total_pnl :: "pylib \<Rightarrow> exn + dataframe \<Rightarrow> pyval \<Rightarrow> pyval \<Rightarrow> exn + real" where
  "compute_total_pnl L D y m =
     (case D of
        Inl e \<Rightarrow> Inl e
      | Inr df \<Rightarrow>
          (case pnl_subset L df y m of
             Inl e \<Rightarrow> Inl e
           | Inr sub \<Rightarrow>
               if sub = [] then
                 (case (if m = PNone then Inr (py_str L y) else month_str L y m) of
                    Inl e \<Rightarrow> Inl e
                  | Inr time_period \<Rightarrow> Inl (ValueError (no_records_msg time_period)))
               else Inr (sum_profit sub)))"

subsection \<open>query_data_flexible\<close>

definition type_name :: "pyval \<Rightarrow> string" where
  "type_name v =
     (case v of
        PNone \<Rightarrow> ''NoneType''
      | PBool b \<Rightarrow> ''bool''
      | PInt i \<Rightarrow> ''int''
      | PFloat x \<Rightarrow> ''float''
      | PStr s \<Rightarrow> ''str''
      | PList xs \<Rightarrow> ''list''
      | PDict kvs \<Rightarrow> ''dict'')"

text \<open>The \<^verbatim>\<open>AttributeError\<close> of \<^verbatim>\<open>v.attr\<close> on a value that has no such attribute.\<close>

definition no_attribute :: "pyval \<Rightarrow> string \<Rightarrow> exn" where
  "no_attribute v attr =
     AttributeError (squote @ type_name v @ squote @ '' object has no attribute '' @
                     squote @ attr @ squote)"

text \<open>\<^verbatim>\<open>v.items()\<close>: only a mapping has it.\<close>

definition py_items :: "pyval \<Rightarrow> exn + (string \<times> pyval) list" where
  "py_items v = (case v of PDict kvs \<Rightarrow> Inr kvs | _ \<Rightarrow> Inl (no_attribute v ''items''))"

text \<open>
  The loop over \<^verbatim>\<open>filters.items()\<close>: a key that is no column of the frame is skipped;
  a text value is searched in the column's text, any other value is compared for equality.
\<close>

fun apply_filters ::
  "pylib \<Rightarrow> string list \<Rightarrow> (string \<times> pyval) list \<Rightarrow> row list \<Rightarrow> exn + row list" where
  "apply_filters L cols [] sub = Inr sub"
| "apply_filters L cols ((column, v) # fs) sub =
     (if column \<in> set cols then
        (case (case v of
                 PStr s \<Rightarrow> filter_contains L column (PStr s) sub
               | _ \<Rightarrow> filter_eq L column v sub) of
           Inl e \<Rightarrow> Inl e
         | Inr sub' \<Rightarrow> apply_filters L cols fs sub')
      else apply_filters L cols fs sub)"

text \<open>
  The rows \<^verbatim>\<open>query_data_flexible\<close> reports on: its variable \<^verbatim>\<open>subset\<close> after the
  filter loop.
\<close>

definition flexible_subset :: "pylib \<Rightarrow> dataframe \<Rightarrow> pyval \<Rightarrow> exn + row list" where
  "flexible_subset L df filters =
     (if truthy filters then
        (case py_items filters of
           Inl e \<Rightarrow> Inl e
         | Inr kvs \<Rightarrow> apply_filters L (columns df) kvs (rows df))
      else Inr (rows df))"

record aggregations =
  agg_by_ledger_type :: "(cell \<times> real) list"
  agg_by_property :: "(cell \<times> real) list"
  agg_by_year :: "(cell \<times> real) list"

record counts =
  cnt_total :: nat
  cnt_by_ledger_type :: "(cell \<times> nat) list"
  cnt_by_property :: "(cell \<times> nat) list"

text \<open>
  The dictionary \<^verbatim>\<open>query_data_flexible\<close> returns. A key that a result may lack is an
  optional field: \<open>None\<close> says the key is absent. The value of \<^verbatim>\<open>rows\<close> is a list of
  dictionaries, one per row, whose keys are the frame's columns: it is held as these
  columns and the rows.
\<close>

record query_result =
  qr_status :: string
  qr_message :: "string option"
  qr_filters :: pyval
  qr_count :: nat
  qr_total_profit :: "real option"
  qr_rows :: "(string list \<times> row list) option"
  qr_showing :: "nat option"
  qr_total_rows :: "nat option"
  qr_aggregations :: "aggregations option"
  qr_counts :: "counts option"

text \<open>\<^verbatim>\<open>subset.head(limit)\<close>; a negative limit drops that many rows from the end.\<close>

definition head :: "int \<Rightarrow> 'a list \<Rightarrow> 'a list" where
  "head limit xs =
     (if 0 \<le> limit then take (nat limit) xs else take (length xs - nat (- limit)) xs)"

text \<open>\<^verbatim>\<open>subset.groupby(column)[VALUE_COLUMN].sum().to_dict()\<close>.\<close>

definition group_profit ::
  "pylib \<Rightarrow> string list \<Rightarrow> string \<Rightarrow> row list \<Rightarrow> exn + (cell \<times> real) list" where
  "group_profit L cols column sub =
     (if column \<in> set cols
      then Inr (groupby_sum L (map (\<lambda>r. (cell_of r column, profit r)) sub))
      else Inl (KeyError (squote @ column @ squote)))"

text \<open>\<^verbatim>\<open>subset[column].value_counts().to_dict()\<close>.\<close>

definition count_values ::
  "pylib \<Rightarrow> string list \<Rightarrow> string \<Rightarrow> row list \<Rightarrow> exn + (cell \<times> nat) list" where
  "count_values L cols column sub =
     (if column \<in> set cols
      then Inr (value_counts L (map (\<lambda>r. cell_of r column) sub))
      else Inl (KeyError (squote @ column @ squote)))"

definition no_data_result :: "pyval \<Rightarrow> query_result" where
  "no_data_result filters =
     \<lparr> qr_status = ''no_data'',
       qr_message = Some ''No records found matching the filters.'',
       qr_filters = filters,
       qr_count = 0,
       qr_total_profit = None,
       qr_rows = None,
       qr_showing = None,
       qr_total_rows = None,
       qr_aggregations = None,
       qr_counts = None \<rparr>"

definition success_result :: "pyval \<Rightarrow> row list \<Rightarrow> query_result" where
  "success_result filters sub =
     \<lparr> qr_status = ''success'',
       qr_message = None,
       qr_filters = filters,
       qr_count = length sub,
       qr_total_profit = Some (sum_profit sub),
       qr_rows = None,
       qr_showing = None,
       qr_total_rows = None,
       qr_aggregations = None,
       qr_counts = None \<rparr>"

definition query_data_flexible ::
  "pylib \<Rightarrow> exn + dataframe \<Rightarrow> pyval \<Rightarrow> pyval \<Rightarrow> int \<Rightarrow> exn + query_result" where
  "query_data_flexible L D filters action limit =
     (case D of
        Inl e \<Rightarrow> Inl e
      | Inr df \<Rightarrow>
          (case flexible_subset L df filters of
             Inl e \<Rightarrow> Inl e
           | Inr sub \<Rightarrow>
               if sub = [] then Inr (no_data_result filters)
               else
                 (let result = success_result filters sub; cols = columns df in
                  if action = PStr ''show'' then
                    (let rows_to_return = head limit sub in
                     Inr (result \<lparr> qr_rows := Some (cols, rows_to_return),
                                   qr_showing := Some (length rows_to_return),
                                   qr_total_rows := Some (length sub) \<rparr>))
                  else if action = PStr ''aggregate'' then
                    (case group_profit L cols ''ledger_type'' sub of
                       Inl e \<Rightarrow> Inl e
                     | Inr by_ledger \<Rightarrow>
                         (case (if ''property_name'' \<in> set cols
                                then group_profit L cols ''property_name'' sub else Inr []) of
                            Inl e \<Rightarrow> Inl e
                          | Inr by_prop \<Rightarrow>
                              (case (if ''year'' \<in> set cols
                                     then group_profit L cols ''year'' sub else Inr []) of
                                 Inl e \<Rightarrow> Inl e
                               | Inr by_yr \<Rightarrow>
                                   Inr (result \<lparr> qr_aggregations :=
                                          Some \<lparr> agg_by_ledger_type = by_ledger,
                                                 agg_by_property = by_prop,
                                                 agg_by_year = by_yr \<rparr> \<rparr>))))
                  else if action = PStr ''count'' then
                    (case count_values L cols ''ledger_type'' sub of
                       Inl e \<Rightarrow> Inl e
                     | Inr by_ledger \<Rightarrow>
                         (case (if ''property_name'' \<in> set cols
                                then count_values L cols ''property_name'' sub else Inr []) of
                            Inl e \<Rightarrow> Inl e
                          | Inr by_prop \<Rightarrow>
                              Inr (result \<lparr> qr_counts :=
                                     Some \<lparr> cnt_total = length sub,
                                            cnt_by_ledger_type = by_ledger,
                                            cnt_by_property = by_prop \<rparr> \<rparr>)))
                  else Inr result)))"

subsection \<open>get_single_asset and summarize_asset_record\<close>

record asset_summary =
  as_property_name :: cell
  as_entity_name :: cell
  as_total_records :: nat
  as_total_profit :: real
  as_tenants :: "string list"
  as_ledger_totals :: "(cell \<times> real) list"

text \<open>\<^verbatim>\<open>unique()\<close>: the distinct values in order of first appearance.\<close>

definition unique :: "'a list \<Rightarrow> 'a list" where
  "unique xs = rev (remdups (rev xs))"

definition get_single_asset ::
  "pylib \<Rightarrow> exn + dataframe \<Rightarrow> pyval \<Rightarrow> exn + asset_summary option" where
  "get_single_asset L D property_query =
     (case D of
        Inl e \<Rightarrow> Inl e
      | Inr df \<Rightarrow>
          (case filter_by_property L df property_query of
             Inl e \<Rightarrow> Inl e
           | Inr sub \<Rightarrow>
               (case sub of
                  [] \<Rightarrow> Inr None
                | r # _ \<Rightarrow>
                    (case group_profit L (columns df) ''ledger_type'' sub of
                       Inl e \<Rightarrow> Inl e
                     | Inr totals \<Rightarrow>
                         Inr (Some
                           \<lparr> as_property_name = cell_of r PROPERTY_COLUMN,
                             as_entity_name = cell_of r ''entity_name'',
                             as_total_records = length sub,
                             as_total_profit = sum_profit sub,
                             as_tenants =
                               unique (map (astype_str L)
                                 (filter (\<lambda>c. c \<noteq> CNaN)
                                    (map (\<lambda>r. cell_of r TENANT_COLUMN) sub))),
                             as_ledger_totals = sort_values_desc L totals \<rparr>)))))"

definition nl :: string where
  "nl = [CHR 0x0A]"

text \<open>
  \<^verbatim>\<open>summarize_asset_record(record)\<close>. The argument \<open>None\<close> is the empty dictionary, for
  which formatting the absent profit raises.
\<close>

definition summarize_asset_record :: "pylib \<Rightarrow> asset_summary option \<Rightarrow> exn + string" where
  "summarize_asset_record L record =
     (case record of
        None \<Rightarrow> Inl (TypeError ''unsupported format string passed to NoneType.__format__'')
      | Some rc \<Rightarrow>
          Inr (join nl
            ([''Property: '' @ astype_str L (as_property_name rc),
              ''Entity: '' @ astype_str L (as_entity_name rc),
              ''Total records: '' @ str_nat (as_total_records rc),
              ''Net Profit (P&L): '' @ fmt_2f L (as_total_profit rc)] @
             (if as_tenants rc \<noteq> [] then [''Tenants: '' @ join '', '' (as_tenants rc)]
              else []) @
             (if as_ledger_totals rc \<noteq> []
              then ''Breakdown by Ledger Type:'' #
                   map (\<lambda>(ledger, v). ''  - '' @ astype_str L ledger @ '': '' @ fmt_2f L v)
                     (as_ledger_totals rc)
              else []))))"

section \<open>Text operations of the nodes\<close>

definition lower_char :: "char \<Rightarrow> char" where
  "lower_char c =
     (case map_of (zip ''ABCDEFGHIJKLMNOPQRSTUVWXYZ'' ''abcdefghijklmnopqrstuvwxyz'') c of
        None \<Rightarrow> c
      | Some l \<Rightarrow> l)"

text \<open>\<^verbatim>\<open>s.lower()\<close>.\<close>

definition lower :: "string \<Rightarrow> string" where
  "lower s = map lower_char s"

text \<open>
  Whitespace as \<^verbatim>\<open>str.strip()\<close> and the pattern \<^verbatim>\<open>\s\<close> read it: tab, line feed,
  vertical tab, form feed, carriage return, the four separators 0x1C to 0x1F and the space.
\<close>

definition is_space :: "char \<Rightarrow> bool" where
  "is_space c \<longleftrightarrow>
     c \<in> set [CHR 0x09, CHR 0x0A, CHR 0x0B, CHR 0x0C, CHR 0x0D,
               CHR 0x1C, CHR 0x1D, CHR 0x1E, CHR 0x1F, CHR 0x20]"

definition is_digit :: "char \<Rightarrow> bool" where
  "is_digit c \<longleftrightarrow> c \<in> set ''0123456789''"

text \<open>\<^verbatim>\<open>s.strip()\<close>.\<close>

definition strip :: "string \<Rightarrow> string" where
  "strip s = rev (dropWhile is_space (rev (dropWhile is_space s)))"

text \<open>
  \<^verbatim>\<open>s.replace(pat, "")\<close>: every occurrence of \<open>pat\<close>, found from the left and not
  overlapping, is removed.
\<close>

function remove_all :: "string \<Rightarrow> string \<Rightarrow> string" where
  "remove_all pat [] = []"
| "remove_all pat (c # cs) =
     (if pat \<noteq> [] \<and> prefix pat (c # cs)
      then remove_all pat (drop (length pat) (c # cs))
      else c # remove_all pat cs)"
  by pat_completeness auto
termination
  by (relation "measure (\<lambda>(pat, s). length s)") (auto simp: neq_Nil_conv)

text \<open>\<^verbatim>\<open>any(k in query for k in keywords)\<close>.\<close>

definition any_in :: "string list \<Rightarrow> string \<Rightarrow> bool" where
  "any_in keywords query = list_ex (\<lambda>k. sublist k query) keywords"

text \<open>\<^verbatim>\<open>int(s)\<close> for a string of decimal digits.\<close>

definition digit_val :: "char \<Rightarrow> int" where
  "digit_val c = int (length (takeWhile (\<lambda>d. d \<noteq> c) ''0123456789''))"

definition int_of_digits :: "string \<Rightarrow> int" where
  "int_of_digits s = foldl (\<lambda>a c. 10 * a + digit_val c) 0 s"

text \<open>
  \<^verbatim>\<open>re.search(r"(202[0-9]-M\d{2})", s)\<close>: the leftmost match, eight characters long.
\<close>

definition month_token_at :: "string \<Rightarrow> bool" where
  "month_token_at s \<longleftrightarrow>
     8 \<le> length s \<and> take 3 s = ''202'' \<and> is_digit (s ! 3) \<and> s ! 4 = CHR ''-'' \<and>
     s ! 5 = CHR ''M'' \<and> is_digit (s ! 6) \<and> is_digit (s ! 7)"

fun search_month_token :: "string \<Rightarrow> string option" where
  "search_month_token [] = None"
| "search_month_token (c # cs) =
     (if month_token_at (c # cs) then Some (take 8 (c # cs)) else search_month_token cs)"

text \<open>\<^verbatim>\<open>re.search(r"202[0-9]", s)\<close>.\<close>

definition year_token_at :: "string \<Rightarrow> bool" where
  "year_token_at s \<longleftrightarrow> 4 \<le> length s \<and> take 3 s = ''202'' \<and> is_digit (s ! 3)"

fun search_year_token :: "string \<Rightarrow> string option" where
  "search_year_token [] = None"
| "search_year_token (c # cs) =
     (if year_token_at (c # cs) then Some (take 4 (c # cs)) else search_year_token cs)"

text \<open>
  A match of \<^verbatim>\<open>[Ww]ord\s+(\d+)\<close> at the start of \<open>s\<close>, for a word given by its first
  letter in both cases and its remaining letters: the digits of the group and the text
  after the match. Whitespace and digits are disjoint, so the greedy match is the only one.
\<close>

definition numbered_at :: "char \<Rightarrow> char \<Rightarrow> string \<Rightarrow> string \<Rightarrow> (string \<times> string) option" where
  "numbered_at up lo rest_of_word s =
     (case s of
        [] \<Rightarrow> None
      | c # cs \<Rightarrow>
          if (c = up \<or> c = lo) \<and> prefix rest_of_word cs then
            (let after_word = drop (length rest_of_word) cs;
                 after_space = dropWhile is_space after_word;
                 num = takeWhile is_digit after_space
             in if after_space \<noteq> after_word \<and> num \<noteq> []
                then Some (num, dropWhile is_digit after_space)
                else None)
          else None)"

lemma numbered_at_shorter:
  "numbered_at up lo rest_of_word s = Some (num, rest) \<Longrightarrow> length rest < length s"
proof -
  assume a: "numbered_at up lo rest_of_word s = Some (num, rest)"
  then obtain c cs where s: "s = c # cs"
    by (cases s) (auto simp: numbered_at_def)
  from a s have "rest = dropWhile is_digit (dropWhile is_space (drop (length rest_of_word) cs))"
    by (auto simp: numbered_at_def Let_def split: if_splits)
  moreover have "length (dropWhile is_digit (dropWhile is_space (drop (length rest_of_word) cs)))
                   \<le> length cs"
  proof -
    have "length (dropWhile is_digit (dropWhile is_space (drop (length rest_of_word) cs)))
            \<le> length (dropWhile is_space (drop (length rest_of_word) cs))"
      by (rule length_dropWhile_le)
    also have "\<dots> \<le> length (drop (length rest_of_word) cs)"
      by (rule length_dropWhile_le)
    also have "\<dots> \<le> length cs"
      by simp
    finally show ?thesis .
  qed
  ultimately show ?thesis using s by simp
qed

text \<open>\<^verbatim>\<open>re.findall\<close> of such a pattern: the groups of the matches, left to right.\<close>

function findall_numbered :: "char \<Rightarrow> char \<Rightarrow> string \<Rightarrow> string \<Rightarrow> string list" where
  "findall_numbered up lo rest_of_word [] = []"
| "findall_numbered up lo rest_of_word (c # cs) =
     (case numbered_at up lo rest_of_word (c # cs) of
        Some (num, rest) \<Rightarrow> num # findall_numbered up lo rest_of_word rest
      | None \<Rightarrow> findall_numbered up lo rest_of_word cs)"
  by pat_completeness auto
termination
  by (relation "measure (\<lambda>(up, lo, w, s). length s)")
     (auto dest: numbered_at_shorter)

text \<open>\<^verbatim>\<open>re.search\<close> of such a pattern: the group of the leftmost match.\<close>

fun search_numbered :: "char \<Rightarrow> char \<Rightarrow> string \<Rightarrow> string \<Rightarrow> string option" where
  "search_numbered up lo rest_of_word [] = None"
| "search_numbered up lo rest_of_word (c # cs) =
     (case numbered_at up lo rest_of_word (c # cs) of
        Some (num, rest) \<Rightarrow> Some num
      | None \<Rightarrow> search_numbered up lo rest_of_word cs)"

text \<open>\<^verbatim>\<open>re.findall(r"[Bb]uilding\s+(\d+)", s)\<close>.\<close>

definition findall_building :: "string \<Rightarrow> string list" where
  "findall_building s = findall_numbered CHR ''B'' CHR ''b'' ''uilding'' s"

text \<open>\<^verbatim>\<open>re.search(r"[Tt]enant\s+(\d+)", s)\<close>.\<close>

definition search_tenant :: "string \<Rightarrow> string option" where
  "search_tenant s = search_numbered CHR ''T'' CHR ''t'' ''enant'' s"

subsection \<open>Dictionaries and sorting\<close>

text \<open>\<^verbatim>\<open>d[k] = v\<close> on an insertion-ordered dictionary with distinct keys.\<close>

fun dict_set :: "('k \<times> 'v) list \<Rightarrow> 'k \<Rightarrow> 'v \<Rightarrow> ('k \<times> 'v) list" where
  "dict_set [] k v = [(k, v)]"
| "dict_set ((k', v') # kvs) k v =
     (if k' = k then (k, v) # kvs else (k', v') # dict_set kvs k v)"

text \<open>\<^verbatim>\<open>d.get(k, default)\<close>.\<close>

definition dict_get :: "(string \<times> pyval) list \<Rightarrow> string \<Rightarrow> pyval \<Rightarrow> pyval" where
  "dict_get kvs k d = (case map_of kvs k of None \<Rightarrow> d | Some v \<Rightarrow> v)"

text \<open>
  \<^verbatim>\<open>sorted(items, key=lambda x: x[1], reverse=True)\<close>: descending by value, items of
  equal value in their original order.
\<close>

fun insert_desc :: "'k \<times> 'v::linorder \<Rightarrow> ('k \<times> 'v) list \<Rightarrow> ('k \<times> 'v) list" where
  "insert_desc kv [] = [kv]"
| "insert_desc kv (x # xs) =
     (if snd x \<le> snd kv then kv # x # xs else x # insert_desc kv xs)"

definition sorted_desc :: "('k \<times> 'v::linorder) list \<Rightarrow> ('k \<times> 'v) list" where
  "sorted_desc kvs = foldr insert_desc kvs []"

section \<open>The nodes (graph_nodes.py)\<close>

text \<open>
  \<^verbatim>\<open>llm.invoke([system, human])\<close> either raises or returns a message whose
  \<^verbatim>\<open>content\<close> is a Python value, text as a rule. The model capability is a function of
  the system prompt and the user message.
\<close>

datatype llm_reply = LlmRaises exn | LlmContent pyval

record strategy_prompts =
  intent_system_prompt :: "string option"
  extract_system_prompt :: "string option"
  general_qa_system_prompt :: "string option"

record pnl_entry =
  pe_year :: pyval
  pe_month :: pyval
  pe_value :: real

text \<open>
  \<^verbatim>\<open>retrieved_data\<close> is a dictionary keyed by intent; a key it lacks is \<open>None\<close> here
  (\<open>False\<close> for the key whose value is the empty dictionary).
\<close>

record retrieved =
  rd_price_comparison :: "comparison option"
  rd_asset_details :: "asset_summary option"
  rd_total_pnl :: "pnl_entry option"
  rd_data_query :: "query_result option"
  rd_general_qa :: bool

definition empty_retrieved :: retrieved where
  "empty_retrieved =
     \<lparr> rd_price_comparison = None, rd_asset_details = None, rd_total_pnl = None,
       rd_data_query = None, rd_general_qa = False \<rparr>"

text \<open>
  \<^verbatim>\<open>AgentState\<close>. \<open>answer\<close> is a Python value because the general-question branch stores
  the model's \<^verbatim>\<open>content\<close> as it is; \<open>PNone\<close> is \<^verbatim>\<open>None\<close>.
\<close>

record agent_state =
  user_query :: string
  intent :: "string option"
  extracted_params :: "(string \<times> pyval) list"
  retrieved_data :: retrieved
  answer :: pyval
  error :: "string option"
  strategy :: strategy_prompts
  llm :: "string \<Rightarrow> string \<Rightarrow> llm_reply"

subsection \<open>detect_intent\<close>

definition intent_prompt_missing_msg :: string where
  "intent_prompt_missing_msg =
     ''Intent system prompt not configured. '' @
     ''Please configure it in Django Admin (Prompt model with type='' @ squote @ ''intent'' @
     squote @ '').''"

definition keywords_data_explicit :: "string list" where
  "keywords_data_explicit =
     [''show all'', ''list all'', ''show rows'', ''list rows'', ''display rows'',
      ''get all'', ''all rows'', ''all data'', ''filter by'', ''where month'',
      ''where year'', ''for month'', ''for year'', ''records for'']"

definition keywords_pnl :: "string list" where
  "keywords_pnl = [''total profit'', ''total loss'', ''total pnl'', ''sum of'', ''aggregate'']"

definition keywords_asset :: "string list" where
  "keywords_asset = [''building'', ''property'', ''tenant'', ''rent'', ''asset'']"

definition valid_intents :: "string list" where
  "valid_intents =
     [''price_comparison'', ''total_pnl'', ''asset_details'', ''general_qa'', ''data_query'']"

definition detect_intent :: "agent_state \<Rightarrow> exn + agent_state" where
  "detect_intent st =
     (let query = lower (user_query st) in
      case intent_system_prompt (strategy st) of
        None \<Rightarrow> Inl (ValueError intent_prompt_missing_msg)
      | Some system_prompt \<Rightarrow>
          if system_prompt = [] then Inl (ValueError intent_prompt_missing_msg)
          else
            (let label0 =
                   (case llm st system_prompt (user_query st) of
                      LlmContent (PStr c) \<Rightarrow> lower (strip c)
                    | _ \<Rightarrow> ''general_qa'');
                 label1 =
                   (if label0 = ''general_qa'' then
                      (if any_in keywords_data_explicit query then ''data_query''
                       else if any_in keywords_pnl query then ''total_pnl''
                       else if any_in keywords_asset query then ''asset_details''
                       else label0)
                    else label0);
                 label2 = (if label1 \<notin> set valid_intents then ''general_qa'' else label1)
             in Inr (st \<lparr> intent := Some label2 \<rparr>)))"

subsection \<open>extract_params\<close>

definition extract_prompt_missing_msg :: string where
  "extract_prompt_missing_msg =
     ''Extract system prompt not configured. '' @
     ''Please configure it in Django Admin (Prompt model with type='' @ squote @ ''extract'' @
     squote @ '').''"

definition fence :: string where
  "fence = [CHR 0x60, CHR 0x60, CHR 0x60]"

text \<open>The five local variables the node fills on either path.\<close>

record extraction =
  ex_addresses :: pyval
  ex_year :: pyval
  ex_month :: pyval
  ex_filters :: pyval
  ex_action :: pyval

text \<open>\<^verbatim>\<open>v or []\<close>.\<close>

definition or_empty_list :: "pyval \<Rightarrow> pyval" where
  "or_empty_list v = (if truthy v then v else PList [])"

text \<open>
  The body of the \<^verbatim>\<open>try\<close>: \<open>None\<close> when it raises \<^verbatim>\<open>JSONDecodeError\<close> or
  \<^verbatim>\<open>AttributeError\<close>, that is when the content is not text, is not JSON, or is JSON but
  not an object.
\<close>

definition parse_reply :: "pylib \<Rightarrow> pyval \<Rightarrow> extraction option" where
  "parse_reply L content =
     (case content of
        PStr c \<Rightarrow>
          (case json_loads L (strip (remove_all fence (remove_all (fence @ ''json'') c))) of
             Some (PDict parsed) \<Rightarrow>
               Some \<lparr> ex_addresses = or_empty_list (dict_get parsed ''addresses'' PNone),
                      ex_year = dict_get parsed ''year'' PNone,
                      ex_month = dict_get parsed ''month'' PNone,
                      ex_filters = dict_get parsed ''filters'' (PDict []),
                      ex_action = dict_get parsed ''action'' (PStr ''show'') \<rparr>
           | _ \<Rightarrow> None)
      | _ \<Rightarrow> None)"

text \<open>The body of the \<^verbatim>\<open>except\<close>: extraction from the query text alone.\<close>

definition fallback_extraction :: "string \<Rightarrow> extraction" where
  "fallback_extraction q =
     (let (filters1, y) =
            (case search_month_token q of
               Some tok \<Rightarrow> ([(''month'', PStr tok)], PInt (int_of_digits (take 4 tok)))
             | None \<Rightarrow>
                 ([], case search_year_token q of
                        Some tok \<Rightarrow> PInt (int_of_digits tok)
                      | None \<Rightarrow> PNone));
          building_matches = findall_building q;
          addresses = map (\<lambda>num. PStr (''Building '' @ num)) building_matches;
          filters2 =
            (case building_matches of
               [] \<Rightarrow> filters1
             | num # _ \<Rightarrow> dict_set filters1 ''property_name'' (PStr (''Building '' @ num)));
          filters3 =
            (case search_tenant q of
               Some num \<Rightarrow> dict_set filters2 ''tenant_name'' (PStr (''Tenant '' @ num))
             | None \<Rightarrow> filters2);
          query_lower = lower q;
          action =
            (if any_in [''show'', ''list'', ''display'', ''all rows'', ''get''] query_lower
             then ''show''
             else if any_in [''sum'', ''total'', ''aggregate''] query_lower then ''aggregate''
             else if any_in [''count'', ''how many''] query_lower then ''count''
             else ''show'')
      in \<lparr> ex_addresses = PList addresses, ex_year = y, ex_month = PNone,
           ex_filters = PDict filters3, ex_action = PStr action \<rparr>)"

text \<open>\<^verbatim>\<open>v.get(k)\<close>: only a mapping has it.\<close>

definition py_get :: "pyval \<Rightarrow> string \<Rightarrow> exn + pyval" where
  "py_get v k =
     (case v of PDict kvs \<Rightarrow> Inr (dict_get kvs k PNone) | _ \<Rightarrow> Inl (no_attribute v ''get''))"

definition not_iterable :: "pyval \<Rightarrow> exn" where
  "not_iterable v =
     TypeError (''argument of type '' @ squote @ type_name v @ squote @ '' is not iterable'')"

text \<open>
  \<^verbatim>\<open>s in v\<close> for a text \<open>s\<close>: a substring of a text, an element of a list, a key of a
  mapping; any other right-hand side raises.
\<close>

definition py_in :: "string \<Rightarrow> pyval \<Rightarrow> exn + bool" where
  "py_in s v =
     (case v of
        PStr t \<Rightarrow> Inr (sublist s t)
      | PList xs \<Rightarrow> Inr (list_ex (\<lambda>x. x = PStr s) xs)
      | PDict kvs \<Rightarrow> Inr (list_ex (\<lambda>kv. fst kv = s) kvs)
      | _ \<Rightarrow> Inl (not_iterable v))"

text \<open>
  The statement after the \<^verbatim>\<open>try\<close>, which both paths reach: when no address was found
  and the filters name a property, the addresses are taken from the query's building
  mentions, or from the filter's value.
\<close>

definition reconcile_addresses :: "string \<Rightarrow> extraction \<Rightarrow> exn + extraction" where
  "reconcile_addresses q ex =
     (if \<not> truthy (ex_addresses ex) then
        (case py_get (ex_filters ex) ''property_name'' of
           Inl e \<Rightarrow> Inl e
         | Inr prop_name \<Rightarrow>
             if truthy prop_name then
               (case py_in ''Building'' prop_name of
                  Inl e \<Rightarrow> Inl e
                | Inr has_building \<Rightarrow>
                    if has_building then
                      (let all_buildings = findall_building q in
                       Inr (ex \<lparr> ex_addresses :=
                              (if all_buildings \<noteq> []
                               then PList (map (\<lambda>num. PStr (''Building '' @ num)) all_buildings)
                               else PList [prop_name]) \<rparr>))
                    else Inr ex)
             else Inr ex)
      else Inr ex)"

definition params_of :: "extraction \<Rightarrow> (string \<times> pyval) list" where
  "params_of ex =
     [(''addresses'', ex_addresses ex), (''year'', ex_year ex), (''month'', ex_month ex),
      (''filters'', ex_filters ex), (''action'', ex_action ex)]"

definition extract_params :: "pylib \<Rightarrow> agent_state \<Rightarrow> exn + agent_state" where
  "extract_params L st =
     (if intent st = Some ''general_qa'' then
        Inr (st \<lparr> extracted_params :=
               [(''addresses'', PList []), (''year'', PNone), (''month'', PNone)] \<rparr>)
      else
        (case extract_system_prompt (strategy st) of
           None \<Rightarrow> Inl (ValueError extract_prompt_missing_msg)
         | Some system_prompt \<Rightarrow>
             if system_prompt = [] then Inl (ValueError extract_prompt_missing_msg)
             else
               (case llm st system_prompt (user_query st) of
                  LlmRaises e \<Rightarrow> Inl e
                | LlmContent content \<Rightarrow>
                    (case reconcile_addresses (user_query st)
                            (case parse_reply L content of
                               Some ex \<Rightarrow> ex
                             | None \<Rightarrow> fallback_extraction (user_query st)) of
                       Inl e \<Rightarrow> Inl e
                     | Inr ex \<Rightarrow> Inr (st \<lparr> extracted_params := params_of ex \<rparr>)))))"

subsection \<open>retrieve_data\<close>

definition no_len :: "pyval \<Rightarrow> exn" where
  "no_len v = TypeError (''object of type '' @ squote @ type_name v @ squote @ '' has no len()'')"

text \<open>\<^verbatim>\<open>len(v)\<close>.\<close>

definition py_len :: "pyval \<Rightarrow> exn + nat" where
  "py_len v =
     (case v of
        PStr s \<Rightarrow> Inr (length s)
      | PList xs \<Rightarrow> Inr (length xs)
      | PDict kvs \<Rightarrow> Inr (length kvs)
      | _ \<Rightarrow> Inl (no_len v))"

text \<open>\<^verbatim>\<open>v[i]\<close> for a small index \<open>i\<close> that the code writes as a literal.\<close>

definition py_index :: "pyval \<Rightarrow> nat \<Rightarrow> exn + pyval" where
  "py_index v i =
     (case v of
        PStr s \<Rightarrow>
          if i < length s then Inr (PStr [s ! i])
          else Inl (IndexError ''string index out of range'')
      | PList xs \<Rightarrow>
          if i < length xs then Inr (xs ! i) else Inl (IndexError ''list index out of range'')
      | PDict kvs \<Rightarrow> Inl (KeyError (str_nat i))
      | _ \<Rightarrow> Inl (TypeError (squote @ type_name v @ squote @ '' object is not subscriptable'')))"

text \<open>\<^verbatim>\<open>v[k] = x\<close> for a text key \<open>k\<close>.\<close>

definition py_setitem :: "pyval \<Rightarrow> string \<Rightarrow> pyval \<Rightarrow> exn + pyval" where
  "py_setitem v k x =
     (case v of
        PDict kvs \<Rightarrow> Inr (PDict (dict_set kvs k x))
      | PList xs \<Rightarrow> Inl (TypeError ''list indices must be integers or slices, not str'')
      | _ \<Rightarrow>
          Inl (TypeError (squote @ type_name v @ squote @
                          '' object does not support item assignment'')))"

text \<open>\<^verbatim>\<open>str(e)\<close>.\<close>

definition exn_str :: "exn \<Rightarrow> string" where
  "exn_str e =
     (case e of
        ValueError m \<Rightarrow> m
      | AttributeError m \<Rightarrow> m
      | TypeError m \<Rightarrow> m
      | KeyError m \<Rightarrow> m
      | IndexError m \<Rightarrow> m
      | DatasetConfigError m \<Rightarrow> m
      | OtherError m \<Rightarrow> m)"

text \<open>The three \<^verbatim>\<open>except\<close> clauses of the node, in their order: the text put in \<open>error\<close>.\<close>

definition error_text :: "exn \<Rightarrow> string" where
  "error_text e =
     (case e of
        DatasetConfigError m \<Rightarrow> ''Data Config Error: '' @ m
      | ValueError m \<Rightarrow> m
      | _ \<Rightarrow> ''System Error: '' @ exn_str e)"

text \<open>\<^verbatim>\<open>isinstance(v, int)\<close>: a boolean is an integer.\<close>

definition is_int :: "pyval \<Rightarrow> bool" where
  "is_int v = (case v of PInt i \<Rightarrow> True | PBool b \<Rightarrow> True | _ \<Rightarrow> False)"

text \<open>
  \<^verbatim>\<open>if year is not None and "year" not in filters: filters["year"] = year\<close>
\<close>

definition add_year :: "pyval \<Rightarrow> pyval \<Rightarrow> exn + pyval" where
  "add_year filters y =
     (if y \<noteq> PNone then
        (case py_in ''year'' filters of
           Inl e \<Rightarrow> Inl e
         | Inr present \<Rightarrow> if present then Inr filters else py_setitem filters ''year'' y)
      else Inr filters)"

text \<open>
  The same for the month; an integer month is written as
  \<^verbatim>\<open>f"{year}-M{month:02d}"\<close>, with whatever the year is.
\<close>

definition add_month :: "pylib \<Rightarrow> pyval \<Rightarrow> pyval \<Rightarrow> pyval \<Rightarrow> exn + pyval" where
  "add_month L filters y m =
     (if m \<noteq> PNone then
        (case py_in ''month'' filters of
           Inl e \<Rightarrow> Inl e
         | Inr present \<Rightarrow>
             if present then Inr filters
             else if is_int m then
               (case month_str L y m of
                  Inl e \<Rightarrow> Inl e
                | Inr ms \<Rightarrow> py_setitem filters ''month'' (PStr ms))
             else py_setitem filters ''month'' m)
      else Inr filters)"

text \<open>
  How the \<^verbatim>\<open>try\<close> block ends: with the result dictionary, with an early return that
  has set \<open>error\<close>, or with an exception.
\<close>

datatype outcome = Done retrieved | Early string | Raised exn

text \<open>
  The filters dictionary that the data-query branch changes is the one inside
  \<open>extracted_params\<close>; the default \<^verbatim>\<open>{}\<close> of a missing key is not.
\<close>

definition store_filters :: "(string \<times> pyval) list \<Rightarrow> pyval \<Rightarrow> (string \<times> pyval) list" where
  "store_filters params f =
     (case map_of params ''filters'' of None \<Rightarrow> params | Some old \<Rightarrow> dict_set params ''filters'' f)"

definition retrieve_try ::
  "pylib \<Rightarrow> exn + dataframe \<Rightarrow> agent_state \<Rightarrow> (string \<times> pyval) list \<times> outcome" where
  "retrieve_try L D st =
     (let params = extracted_params st;
          addresses = or_empty_list (dict_get params ''addresses'' PNone);
          y = dict_get params ''year'' PNone;
          m = dict_get params ''month'' PNone
      in
      if intent st = Some ''price_comparison'' then
        (params,
         case py_len addresses of
           Inl e \<Rightarrow> Raised e
         | Inr n \<Rightarrow>
             if n < 2 then Early ''To compare, I need two property names.''
             else
               (case py_index addresses 0 of
                  Inl e \<Rightarrow> Raised e
                | Inr a0 \<Rightarrow>
                    (case py_index addresses 1 of
                       Inl e \<Rightarrow> Raised e
                     | Inr a1 \<Rightarrow>
                         (case compare_assets_by_price L D a0 a1 of
                            Inl e \<Rightarrow> Raised e
                          | Inr data \<Rightarrow>
                              Done (empty_retrieved \<lparr> rd_price_comparison := Some data \<rparr>)))))
      else if intent st = Some ''asset_details'' then
        (params,
         if \<not> truthy addresses then Early ''I couldn't identify the property name.''
         else
           (case py_index addresses 0 of
              Inl e \<Rightarrow> Raised e
            | Inr a0 \<Rightarrow>
                (case get_single_asset L D a0 of
                   Inl e \<Rightarrow> Raised e
                 | Inr None \<Rightarrow>
                     Early (''Property '' @ squote @ py_str L a0 @ squote @ '' not found.'')
                 | Inr (Some record) \<Rightarrow>
                     Done (empty_retrieved \<lparr> rd_asset_details := Some record \<rparr>))))
      else if intent st = Some ''total_pnl'' then
        (params,
         case compute_total_pnl L D y m of
           Inl e \<Rightarrow> Raised e
         | Inr total_value \<Rightarrow>
             Done (empty_retrieved
                    \<lparr> rd_total_pnl := Some \<lparr> pe_year = y, pe_month = m, pe_value = total_value \<rparr> \<rparr>))
      else if intent st = Some ''data_query'' then
        (let filters = dict_get params ''filters'' (PDict []);
             action = dict_get params ''action'' (PStr ''show'')
         in
         case add_year filters y of
           Inl e \<Rightarrow> (params, Raised e)
         | Inr f1 \<Rightarrow>
             (case add_month L f1 y m of
                Inl e \<Rightarrow> (store_filters params f1, Raised e)
              | Inr f2 \<Rightarrow>
                  (store_filters params f2,
                   case query_data_flexible L D f2 action 200 of
                     Inl e \<Rightarrow> Raised e
                   | Inr query_result \<Rightarrow>
                       Done (empty_retrieved \<lparr> rd_data_query := Some query_result \<rparr>))))
      else if intent st = Some ''general_qa'' then
        (params, Done (empty_retrieved \<lparr> rd_general_qa := True \<rparr>))
      else
        (params,
         Early (''Unknown intent: '' @ (case intent st of None \<Rightarrow> ''None'' | Some i \<Rightarrow> i))))"

definition retrieve_data :: "pylib \<Rightarrow> exn + dataframe \<Rightarrow> agent_state \<Rightarrow> agent_state" where
  "retrieve_data L D st =
     (case retrieve_try L D st of
        (params, Done result) \<Rightarrow>
          st \<lparr> extracted_params := params, retrieved_data := result \<rparr>
      | (params, Early msg) \<Rightarrow> st \<lparr> extracted_params := params, error := Some msg \<rparr>
      | (params, Raised e) \<Rightarrow>
          st \<lparr> extracted_params := params, error := Some (error_text e) \<rparr>)"

subsection \<open>compute_answer\<close>

text \<open>\<^verbatim>\<open>state.get("error")\<close> as a condition: the error is set and not the empty text.\<close>

definition error_set :: "agent_state \<Rightarrow> bool" where
  "error_set st = (case error st of None \<Rightarrow> False | Some msg \<Rightarrow> msg \<noteq> [])"

text \<open>The comparison sentence names the first property only for a positive difference.\<close>

definition comparison_text :: "pylib \<Rightarrow> comparison \<Rightarrow> string" where
  "comparison_text L cmp =
     (let a1_name = astype_str L (av_property_name (asset_1 cmp));
          a1_val = av_value (asset_1 cmp);
          a2_name = astype_str L (av_property_name (asset_2 cmp));
          a2_val = av_value (asset_2 cmp);
          diff = difference cmp;
          better = (if 0 < diff then a1_name else a2_name)
      in ''**Comparison Result:**'' @ nl @ nl @
         ''* **'' @ a1_name @ ''**: '' @ fmt_2f L a1_val @ '' profit'' @ nl @
         ''* **'' @ a2_name @ ''**: '' @ fmt_2f L a2_val @ '' profit'' @ nl @ nl @
         ''The property **'' @ better @ ''** generated '' @ fmt_2f L \<bar>diff\<bar> @
         '' more profit.'')"

definition month_names :: "string list" where
  "month_names =
     [[], ''January'', ''February'', ''March'', ''April'', ''May'', ''June'', ''July'',
      ''August'', ''September'', ''October'', ''November'', ''December'']"

text \<open>
  \<^verbatim>\<open>calendar.month_name[mn]\<close>: an index into a list of thirteen entries, the first of
  them empty; a negative index counts from the end.
\<close>

definition month_name_at :: "pyval \<Rightarrow> exn + string" where
  "month_name_at mn =
     (case mn of
        PInt i \<Rightarrow>
          if - 13 \<le> i \<and> i \<le> 12 then Inr (month_names ! nat (if i < 0 then i + 13 else i))
          else Inl (IndexError ''list index out of range'')
      | PBool b \<Rightarrow> Inr (month_names ! (if b then 1 else 0))
      | _ \<Rightarrow>
          Inl (TypeError (''list indices must be integers or slices, not '' @ type_name mn)))"

definition total_pnl_text :: "pylib \<Rightarrow> pnl_entry option \<Rightarrow> exn + string" where
  "total_pnl_text L pnl =
     (let val = (case pnl of None \<Rightarrow> 0 | Some e \<Rightarrow> pe_value e);
          yr = (case pnl of None \<Rightarrow> PNone | Some e \<Rightarrow> pe_year e);
          mn = (case pnl of None \<Rightarrow> PNone | Some e \<Rightarrow> pe_month e)
      in
      case (if truthy yr \<and> truthy mn then
              (case month_name_at mn of
                 Inl e \<Rightarrow> Inl e
               | Inr month_name \<Rightarrow> Inr (''for '' @ month_name @ '' '' @ py_str L yr))
            else if truthy yr then Inr (''for the full year '' @ py_str L yr)
            else Inr ''across all recorded dates'') of
        Inl e \<Rightarrow> Inl e
      | Inr time_frame \<Rightarrow>
          Inr (''The total recorded **Profit/Loss** '' @ time_frame @ '' is: **'' @
               fmt_2f L val @ ''**''))"

text \<open>The three pictograms of the source file, byte for byte as the file holds them.\<close>

definition icon_chart :: string where
  "icon_chart =
     [CHR 0xC4, CHR 0x9F, CHR 0xC5, CHR 0xB8, CHR 0xE2, CHR 0x80, CHR 0x9C, CHR 0xC5, CHR 0xA0]"

definition icon_rows :: string where
  "icon_rows =
     [CHR 0xC4, CHR 0x9F, CHR 0xC5, CHR 0xB8, CHR 0xE2, CHR 0x80, CHR 0x9C, CHR 0xE2, CHR 0x80,
      CHR 0xB9]"

definition icon_trend :: string where
  "icon_trend =
     [CHR 0xC4, CHR 0x9F, CHR 0xC5, CHR 0xB8, CHR 0xE2, CHR 0x80, CHR 0x9C, CHR 0xCB, CHR 0x86]"

definition important_cols :: "string list" where
  "important_cols =
     [''property_name'', ''tenant_name'', ''ledger_type'', ''ledger_description'', ''month'',
      ''year'', ''profit'', ''entity_name'', ''ledger_category'']"

text \<open>
  The columns of the table: the important ones that the rows have, then every other key
  in the order the set of keys is iterated.
\<close>

definition display_cols :: "pylib \<Rightarrow> string list \<Rightarrow> string list" where
  "display_cols L cols =
     foldl (\<lambda>dc col. if col \<in> set dc then dc else dc @ [col])
       (filter (\<lambda>col. col \<in> set cols) important_cols) (set_order L cols)"

text \<open>One cell of the table: profit with two decimals, a missing value as a dash.\<close>

definition table_cell :: "pylib \<Rightarrow> row \<Rightarrow> string \<Rightarrow> string" where
  "table_cell L r col =
     (let val = (if col = ''profit'' then fmt_2f L (profit r)
                 else astype_str L (cell_of r col))
      in if val = ''nan'' then ''-'' else val)"

definition table_line :: "string list \<Rightarrow> string" where
  "table_line cells = ''| '' @ join '' | '' cells @ '' |''"

definition rows_section :: "pylib \<Rightarrow> string list \<times> row list \<Rightarrow> nat \<Rightarrow> nat \<Rightarrow> string list" where
  "rows_section L rws showing n_total =
     [icon_rows @ '' **Data Rows** (showing '' @ str_nat showing @ '' of '' @
      str_nat n_total @ ''):'' @ nl] @
     (if snd rws \<noteq> [] then
        (let dc = display_cols L (fst rws) in
         table_line dc # table_line (map (\<lambda>col. ''---'') dc) #
         map (\<lambda>r. table_line (map (table_cell L r) dc)) (snd rws))
      else []) @
     (if showing < n_total
      then [nl @ ''*...and '' @ str_nat (n_total - showing) @ '' more rows*'']
      else [])"

definition aggregations_section :: "pylib \<Rightarrow> aggregations \<Rightarrow> string list" where
  "aggregations_section L aggs =
     [nl @ icon_trend @ '' **Aggregations:**''] @
     (if agg_by_ledger_type aggs \<noteq> [] then
        (nl @ ''**By Ledger Type:**'') #
        map (\<lambda>(ledger, v). ''- '' @ astype_str L ledger @ '': '' @ fmt_2f L v)
          (sorted_desc (agg_by_ledger_type aggs))
      else []) @
     (if agg_by_property aggs \<noteq> [] then
        (nl @ ''**By Property:**'') #
        map (\<lambda>(prop, v). ''- '' @ astype_str L prop @ '': '' @ fmt_2f L v)
          (take 10 (sorted_desc (agg_by_property aggs)))
      else [])"

definition counts_section :: "pylib \<Rightarrow> counts \<Rightarrow> string list" where
  "counts_section L cnts =
     [nl @ icon_chart @ '' **Counts:**'',
      ''- Total records: '' @ fmt_nat_comma (cnt_total cnts)] @
     (if cnt_by_ledger_type cnts \<noteq> [] then
        (nl @ ''**By Ledger Type:**'') #
        map (\<lambda>(ledger, n). ''- '' @ astype_str L ledger @ '': '' @ fmt_nat_comma n)
          (sorted_desc (cnt_by_ledger_type cnts))
      else [])"

text \<open>The result the branch reads when \<open>retrieved_data\<close> has no data-query entry.\<close>

definition absent_query_result :: query_result where
  "absent_query_result =
     \<lparr> qr_status = [], qr_message = None, qr_filters = PDict [], qr_count = 0,
       qr_total_profit = None, qr_rows = None, qr_showing = None, qr_total_rows = None,
       qr_aggregations = None, qr_counts = None \<rparr>"

definition data_query_text :: "pylib \<Rightarrow> query_result \<Rightarrow> exn + string" where
  "data_query_text L qr =
     (if qr_status qr = ''no_data'' then
        Inr (case qr_message qr of None \<Rightarrow> ''No data found.'' | Some msg \<Rightarrow> msg)
      else
        (case (if truthy (qr_filters qr) then
                 (case py_items (qr_filters qr) of
                    Inl e \<Rightarrow> Inl e
                  | Inr kvs \<Rightarrow>
                      Inr (''**Query Results** (Filters: '' @
                           join '', '' (map (\<lambda>(k, v). k @ ''='' @ py_str L v) kvs) @ '')'' @ nl))
               else Inr (''**Query Results**'' @ nl)) of
           Inl e \<Rightarrow> Inl e
         | Inr header \<Rightarrow>
             Inr (join nl
               ([header,
                 icon_chart @ '' **Summary:**'',
                 ''- Total matching records: **'' @ fmt_nat_comma (qr_count qr) @ ''**'',
                 ''- Total Profit/Loss: **'' @
                   fmt_2f L (case qr_total_profit qr of None \<Rightarrow> 0 | Some p \<Rightarrow> p) @
                   ''**'' @ nl] @
                (case qr_rows qr of
                   None \<Rightarrow> []
                 | Some rws \<Rightarrow>
                     rows_section L rws
                       (case qr_showing qr of None \<Rightarrow> 0 | Some n \<Rightarrow> n)
                       (case qr_total_rows qr of None \<Rightarrow> 0 | Some n \<Rightarrow> n)) @
                (case qr_aggregations qr of
                   None \<Rightarrow> []
                 | Some aggs \<Rightarrow> aggregations_section L aggs) @
                (case qr_counts qr of None \<Rightarrow> [] | Some cnts \<Rightarrow> counts_section L cnts)))))"

definition general_qa_prompt_missing_msg :: string where
  "general_qa_prompt_missing_msg =
     ''General Q&A system prompt not configured. '' @
     ''Please configure it in Django Admin (Prompt model with type='' @ squote @
     ''general_qa'' @ squote @ '').''"

definition compute_answer :: "pylib \<Rightarrow> agent_state \<Rightarrow> exn + agent_state" where
  "compute_answer L st =
     (if error_set st then Inr st
      else
        (let data = retrieved_data st in
         if intent st = Some ''price_comparison'' then
           (case rd_price_comparison data of
              None \<Rightarrow> Inl (KeyError (squote @ ''asset_1'' @ squote))
            | Some cmp \<Rightarrow> Inr (st \<lparr> answer := PStr (comparison_text L cmp) \<rparr>))
         else if intent st = Some ''asset_details'' then
           (case summarize_asset_record L (rd_asset_details data) of
              Inl e \<Rightarrow> Inl e
            | Inr summary_text \<Rightarrow>
                Inr (st \<lparr> answer :=
                       PStr (''Here is the financial summary for the requested property:'' @
                             nl @ nl @ summary_text) \<rparr>))
         else if intent st = Some ''total_pnl'' then
           (case total_pnl_text L (rd_total_pnl data) of
              Inl e \<Rightarrow> Inl e
            | Inr text \<Rightarrow> Inr (st \<lparr> answer := PStr text \<rparr>))
         else if intent st = Some ''data_query'' then
           (case data_query_text L
                   (case rd_data_query data of None \<Rightarrow> absent_query_result | Some qr \<Rightarrow> qr) of
              Inl e \<Rightarrow> Inl e
            | Inr text \<Rightarrow> Inr (st \<lparr> answer := PStr text \<rparr>))
         else if intent st = Some ''general_qa'' then
           (case general_qa_system_prompt (strategy st) of
              None \<Rightarrow> Inl (ValueError general_qa_prompt_missing_msg)
            | Some general_qa_prompt \<Rightarrow>
                if general_qa_prompt = [] then Inl (ValueError general_qa_prompt_missing_msg)
                else
                  (case llm st general_qa_prompt (user_query st) of
                     LlmRaises e \<Rightarrow> Inl e
                   | LlmContent content \<Rightarrow> Inr (st \<lparr> answer := content \<rparr>)))
         else Inr st))"

subsection \<open>The branch and the error terminal\<close>

definition route_after_retrieval :: "agent_state \<Rightarrow> string" where
  "route_after_retrieval st = (if error_set st then ''end_with_error'' else ''compute_answer'')"

definition end_with_error :: "agent_state \<Rightarrow> agent_state" where
  "end_with_error st =
     (case error st of
        None \<Rightarrow> st
      | Some error_msg \<Rightarrow>
          if error_msg \<noteq> [] \<and> \<not> truthy (answer st) then st \<lparr> answer := PStr error_msg \<rparr>
          else st)"

section \<open>The graph (graph_builder.py) and the entry point (orchestrator.py)\<close>

text \<open>
  \<^verbatim>\<open>graph_app.invoke(state)\<close>: the nodes run along the edges of \<^verbatim>\<open>build_graph\<close>; an
  exception of a node ends the run. The result is the final state together with the names
  of the nodes that ran, in order.
\<close>

definition invoke ::
  "pylib \<Rightarrow> exn + dataframe \<Rightarrow> agent_state \<Rightarrow> exn + agent_state \<times> string list" where
  "invoke L D st =
     (case detect_intent st of
        Inl e \<Rightarrow> Inl e
      | Inr s1 \<Rightarrow>
          (case extract_params L s1 of
             Inl e \<Rightarrow> Inl e
           | Inr s2 \<Rightarrow>
               (let s3 = retrieve_data L D s2;
                    visited = [''detect_intent'', ''extract_params'', ''retrieve_data''] in
                if route_after_retrieval s3 = ''compute_answer'' then
                  (case compute_answer L s3 of
                     Inl e \<Rightarrow> Inl e
                   | Inr s4 \<Rightarrow> Inr (s4, visited @ [''compute_answer'']))
                else Inr (end_with_error s3, visited @ [''end_with_error'']))))"

record debug_state =
  dbg_intent :: "string option"
  dbg_extracted_params :: "(string \<times> pyval) list"
  dbg_retrieved_data :: retrieved
  dbg_error :: "string option"

definition initial_state ::
  "(string \<Rightarrow> string \<Rightarrow> llm_reply) \<Rightarrow> string \<Rightarrow> strategy_prompts \<Rightarrow> agent_state" where
  "initial_state model user_query_text strategy_config =
     \<lparr> user_query = strip user_query_text,
       intent = None,
       extracted_params = [],
       retrieved_data = empty_retrieved,
       answer = PNone,
       error = None,
       strategy = strategy_config,
       llm = model \<rparr>"

text \<open>
  \<^verbatim>\<open>run_agent(user_query, strategy_config)\<close>. \<open>built\<close> is what
  \<^verbatim>\<open>build_llm_from_strategy\<close> gives: the model capability, or the exception of building it.
\<close>

definition run_agent ::
  "pylib \<Rightarrow> exn + dataframe \<Rightarrow> exn + (string \<Rightarrow> string \<Rightarrow> llm_reply) \<Rightarrow> string \<Rightarrow>
   strategy_prompts \<Rightarrow> exn + pyval \<times> debug_state" where
  "run_agent L D built user_query_text strategy_config =
     (case built of
        Inl e \<Rightarrow> Inl e
      | Inr model \<Rightarrow>
          (case invoke L D (initial_state model user_query_text strategy_config) of
             Inl e \<Rightarrow> Inl e
           | Inr (result, visited) \<Rightarrow>
               (let answer0 = (if truthy (answer result) then answer result else PStr []);
                    answer1 =
                      (case error result of
                         None \<Rightarrow> answer0
                       | Some err \<Rightarrow>
                           if \<not> truthy answer0 \<and> err \<noteq> []
                           then PStr (''Sorry, I couldn't complete your request: '' @ err)
                           else answer0)
                in Inr (answer1,
                        \<lparr> dbg_intent = intent result,
                          dbg_extracted_params = extracted_params result,
                          dbg_retrieved_data = retrieved_data result,
                          dbg_error = error result \<rparr>))))"

subsection \<open>A reference instance of the library operations\<close>

text \<open>
  Examples are evaluated with \<open>ref_lib\<close>. Its \<open>re_contains\<close> is what the
  regular-expression search computes for a pattern without metacharacters: the pattern's
  text occurs in the cell's text, letter case ignored. Letters are ASCII.
\<close>

definition contains_ci :: "string \<Rightarrow> string \<Rightarrow> bool" where
  "contains_ci pat s = sublist (lower pat) (lower s)"

definition round_half_even :: "real \<Rightarrow> int" where
  "round_half_even x =
     (let f = \<lfloor>x\<rfloor>; d = x - of_int f
      in if d < 1 / 2 then f else if 1 / 2 < d then f + 1 else if even f then f else f + 1)"

definition ref_fmt_2f :: "real \<Rightarrow> string" where
  "ref_fmt_2f x =
     (let c = nat (round_half_even (\<bar>x\<bar> * 100))
      in (if x < 0 then ''-'' else []) @ fmt_nat_comma (c div 100) @ ''.'' @
         [digit_char (c mod 100 div 10), digit_char (c mod 10)])"

definition ref_num_str :: "real \<Rightarrow> string" where
  "ref_num_str x =
     (if x = of_int \<lfloor>x\<rfloor> then str_int \<lfloor>x\<rfloor> @ ''.0'' else ref_fmt_2f x)"

fun ref_groupby_sum :: "(cell \<times> real) list \<Rightarrow> (cell \<times> real) list" where
  "ref_groupby_sum [] = []"
| "ref_groupby_sum ((k, v) # kvs) =
     (if k = CNaN then ref_groupby_sum kvs
      else (k, v + sum_list (map snd (filter (\<lambda>kv. fst kv = k) kvs))) #
           ref_groupby_sum (filter (\<lambda>kv. fst kv \<noteq> k) kvs))"

fun ref_value_counts :: "cell list \<Rightarrow> (cell \<times> nat) list" where
  "ref_value_counts [] = []"
| "ref_value_counts (k # ks) =
     (if k = CNaN then ref_value_counts ks
      else (k, Suc (length (filter (\<lambda>x. x = k) ks))) #
           ref_value_counts (filter (\<lambda>x. x \<noteq> k) ks))"

definition ref_lib :: pylib where
  "ref_lib =
     \<lparr> re_contains =
         (\<lambda>v. case v of
                PStr pat \<Rightarrow> Inr (contains_ci pat)
              | _ \<Rightarrow> Inl (TypeError ''first argument must be string or compiled pattern'')),
       pd_eq_seq = (\<lambda>cs v. Inl (ValueError ''Lengths must match to compare'')),
       py_repr = (\<lambda>v. case v of PFloat x \<Rightarrow> ref_num_str x | _ \<Rightarrow> ''[...]''),
       num_str = ref_num_str,
       fmt_2f = ref_fmt_2f,
       json_loads = (\<lambda>s. None),
       set_order = remdups,
       groupby_sum = ref_groupby_sum,
       value_counts = ref_value_counts,
       sort_values_desc = sorted_desc \<rparr>"

text \<open>A ledger row for the examples, with only the columns the examples read.\<close>

definition ledger_row ::
  "string \<Rightarrow> string \<Rightarrow> string \<Rightarrow> real option \<Rightarrow> string \<Rightarrow> real \<Rightarrow> row" where
  "ledger_row property tenant ledger y m p =
     \<lparr> profit = p, year = y, month = m,
       other = (\<lambda>c. if c = ''property_name'' then CStr property
                     else if c = ''tenant_name'' then CStr tenant
                     else if c = ''ledger_type'' then CStr ledger
                     else CNaN) \<rparr>"

definition demo_df :: dataframe where
  "demo_df =
     \<lparr> columns = REQUIRED_COLUMNS,
       rows =
         [ledger_row ''Building 17'' ''Tenant 4'' ''revenue'' (Some 2025) ''2025-M01'' 1000,
          ledger_row ''Building 22'' ''Tenant 9'' ''revenue'' (Some 2025) ''2025-M02'' 600] \<rparr>"


text \<open>
  A frame whose second row has no year and whose third row writes its month in lower case.
\<close>

definition lax_df :: dataframe where
  "lax_df =
     \<lparr> columns = REQUIRED_COLUMNS,
       rows =
         [ledger_row ''Building 17'' ''Tenant 4'' ''revenue'' (Some 2025) ''2025-M01'' 1000,
          ledger_row ''Building 22'' ''Tenant 9'' ''revenue'' None ''2025-M01'' 600,
          ledger_row ''Building 30'' ''Tenant 2'' ''revenue'' (Some 2025) ''2025-m01'' 50] \<rparr>"

text \<open>A frame in which two properties have the same total.\<close>

definition tie_df :: dataframe where
  "tie_df =
     \<lparr> columns = REQUIRED_COLUMNS,
       rows =
         [ledger_row ''Building 17'' ''Tenant 4'' ''revenue'' (Some 2025) ''2025-M01'' 500,
          ledger_row ''Building 22'' ''Tenant 9'' ''revenue'' (Some 2025) ''2025-M02'' 500] \<rparr>"

text \<open>A model that is unreachable, and a strategy with all three prompts.\<close>

definition offline_llm :: "string \<Rightarrow> string \<Rightarrow> llm_reply" where
  "offline_llm system_prompt user_message = LlmRaises (OtherError ''Connection error.'')"

definition demo_prompts :: strategy_prompts where
  "demo_prompts =
     \<lparr> intent_system_prompt = Some ''Classify the query.'',
       extract_system_prompt = Some ''Extract the parameters.'',
       general_qa_system_prompt = Some ''Answer the question.'' \<rparr>"

text \<open>The state after classification and extraction, for the examples of the later nodes.\<close>

definition demo_state :: "string \<Rightarrow> (string \<times> pyval) list \<Rightarrow> agent_state" where
  "demo_state label params =
     (initial_state offline_llm [] demo_prompts)
       \<lparr> intent := Some label, extracted_params := params \<rparr>"

text \<open>
  The month column in the format the dataset uses: four digits, \<^verbatim>\<open>-M\<close>, two digits.
\<close>

definition month_format :: "string \<Rightarrow> bool" where
  "month_format s \<longleftrightarrow>
     length s = 8 \<and> list_all is_digit (take 4 s) \<and> s ! 4 = CHR ''-'' \<and> s ! 5 = CHR ''M'' \<and>
     list_all is_digit (drop 6 s)"

text \<open>The comparison of two properties whose totals are equal.\<close>

definition tie_cmp :: comparison where
  "tie_cmp =
     \<lparr> asset_1 = \<lparr> av_property_name = CStr ''Building 17'', av_value = 500, av_records = 1 \<rparr>,
       asset_2 = \<lparr> av_property_name = CStr ''Building 22'', av_value = 500, av_records = 1 \<rparr>,
       difference = 0 \<rparr>"

section \<open>The intent resolution in the words of the specification\<close>





section \<open>Replies the extraction handles, and examples of replies\<close>








text \<open>
  A model that classifies every query as a general question and then answers with the
  empty text.
\<close>

definition quiet_llm :: "string \<Rightarrow> string \<Rightarrow> llm_reply" where
  "quiet_llm system_prompt user_message =
     LlmContent (PStr (if system_prompt = ''Classify the query.'' then ''general_qa'' else []))"

text \<open>
  What the retrieval node guarantees about a stored data-query result: a
  \<^verbatim>\<open>no_data\<close> result carries a message that is not empty.
\<close>

definition message_present :: "retrieved \<Rightarrow> bool" where
  "message_present data =
     (case rd_data_query data of
        None \<Rightarrow> True
      | Some qr \<Rightarrow> qr_status qr \<noteq> ''no_data'' \<or> (\<exists>msg. qr_message qr = Some msg \<and> msg \<noteq> []))"
section \<open>Evaluation of the examples\<close>

lemmas col_defs =
  PROPERTY_COLUMN_def TENANT_COLUMN_def VALUE_COLUMN_def YEAR_COLUMN_def MONTH_COLUMN_def

lemmas num_defs = str_int_def str_nat.simps digit_char_def pad_02d_def


lemmas pnl_eval_defs =
  pnl_subset_def filter_eq_def demo_df_def ledger_row_def cell_of_def col_defs scalar_eq_def
  month_str_def format_02d_def py_str_def num_defs

lemmas flex_eval_defs =
  flexible_subset_def truthy_def py_items_def filter_contains_def filter_eq_def ref_lib_def
  demo_df_def REQUIRED_COLUMNS_def ledger_row_def cell_of_def col_defs astype_str_def
  contains_ci_def lower_def lower_char_def scalar_eq_def




lemma demo_pnl_2023: "pnl_subset ref_lib demo_df (PInt 2023) PNone = Inr []"
  by (simp add: pnl_eval_defs)

lemma demo_pnl_2025_03: "pnl_subset ref_lib demo_df (PInt 2025) (PInt 3) = Inr []"
  by (simp add: pnl_eval_defs)

lemma demo_pnl_2025_01:
  "pnl_subset ref_lib demo_df (PInt 2025) (PInt 1) =
     Inr [ledger_row ''Building 17'' ''Tenant 4'' ''revenue'' (Some 2025) ''2025-M01'' 1000]"
  by (simp add: pnl_eval_defs)

lemma demo_flex_999:
  "flexible_subset ref_lib demo_df
     (PDict [(''colour'', PStr ''red''), (''property_name'', PStr ''Building 999'')]) = Inr []"
  by (simp add: flex_eval_defs sublist_code(3))

lemma demo_months: "\<forall>r \<in> set (rows demo_df). month_format (month r)"
  by (simp add: demo_df_def ledger_row_def month_format_def is_digit_def)

lemma demo_filter_17:
  "apply_filters ref_lib (columns demo_df) [(''property_name'', PStr ''Building 17'')]
     (rows demo_df) =
     Inr [ledger_row ''Building 17'' ''Tenant 4'' ''revenue'' (Some 2025) ''2025-M01'' 1000]"
  by (simp add: flex_eval_defs sublist_code(3))

lemmas tie_match_defs =
  filter_by_property_def filter_contains_def ref_lib_def tie_df_def ledger_row_def
  cell_of_def col_defs astype_str_def contains_ci_def lower_def lower_char_def

lemma tie_compare:
  "compare_assets_by_price ref_lib (Inr tie_df) (PStr ''Building 17'') (PStr ''Building 22'') =
     Inr \<lparr> asset_1 = \<lparr> av_property_name = CStr ''Building 17'', av_value = 500,
                        av_records = 1 \<rparr>,
           asset_2 = \<lparr> av_property_name = CStr ''Building 22'', av_value = 500,
                        av_records = 1 \<rparr>,
           difference = 0 \<rparr>"
  by (simp add: compare_assets_by_price_def aggregate_value_def tie_match_defs sum_profit_def
      sublist_code(3))

lemma ref_fmt_0: "fmt_2f ref_lib 0 = ''0.00''"
  by (simp add: ref_lib_def ref_fmt_2f_def round_half_even_def fmt_nat_comma_def
      str_nat.simps digit_char_def)




section \<open>Properties of the query engine\<close>



text \<open>
  Claim C7. Whenever the year and month filters of \<^verbatim>\<open>compute_total_pnl\<close> leave no row,
  the function raises the \<^verbatim>\<open>ValueError\<close> "No financial records found for the period:
  ...", where the period is the year, or the year, "-M" and the two-digit month when a
  month was given. It returns a number only for a non-empty selection, and that number is
  the sum of the selected profits.
\<close>

theorem pnl_empty_is_error:
  assumes "pnl_subset L df y m = Inr sub"
  shows "(sub = [] \<longrightarrow>
           (\<exists>mm. (m \<noteq> PNone \<longrightarrow> format_02d m = Inr mm) \<and>
              compute_total_pnl L (Inr df) y m =
                Inl (ValueError (no_records_msg
                  (if m = PNone then py_str L y else py_str L y @ ''-M'' @ mm))))) \<and>
         (sub \<noteq> [] \<longrightarrow> compute_total_pnl L (Inr df) y m = Inr (sum_profit sub))"
  using assms
  by (auto simp: compute_total_pnl_def pnl_subset_def month_str_def
      split: if_splits sum.splits)

theorem pnl_empty_is_error_witness:
  "compute_total_pnl ref_lib (Inr demo_df) (PInt 2023) PNone =
     Inl (ValueError ''No financial records found for the period: 2023.'') \<and>
   compute_total_pnl ref_lib (Inr demo_df) (PInt 2025) (PInt 3) =
     Inl (ValueError ''No financial records found for the period: 2025-M03.'') \<and>
   compute_total_pnl ref_lib (Inr demo_df) (PInt 2025) (PInt 1) = Inr 1000"
  using pnl_empty_is_error [OF demo_pnl_2023] pnl_empty_is_error [OF demo_pnl_2025_03]
    pnl_empty_is_error [OF demo_pnl_2025_01]
  by (simp add: no_records_msg_def py_str_def format_02d_def num_defs sum_profit_def
      ledger_row_def)

lemma apply_filters_known:
  "apply_filters L cols kvs sub =
     apply_filters L cols (filter (\<lambda>kv. fst kv \<in> set cols) kvs) sub"
  by (induction L cols kvs sub rule: apply_filters.induct) (auto split: sum.splits)

text \<open>
  Claim C8. For a filters mapping, the rows the flexible query selects are those selected
  by the entries whose key is a column of the frame: an entry with any other key changes
  nothing and raises nothing. When the selection is empty, the query returns, for every
  action and limit, the result with status \<^verbatim>\<open>no_data\<close>, the filters it was given,
  count 0 and no \<^verbatim>\<open>rows\<close> (nor totals, aggregations or counts).
\<close>

theorem flexible_query_no_data:
  "flexible_subset L df (PDict kvs) =
     apply_filters L (columns df) (filter (\<lambda>kv. fst kv \<in> set (columns df)) kvs) (rows df) \<and>
   (flexible_subset L df filters = Inr [] \<longrightarrow>
      query_data_flexible L (Inr df) filters action limit =
        Inr \<lparr> qr_status = ''no_data'',
              qr_message = Some ''No records found matching the filters.'',
              qr_filters = filters, qr_count = 0, qr_total_profit = None, qr_rows = None,
              qr_showing = None, qr_total_rows = None, qr_aggregations = None,
              qr_counts = None \<rparr>)"
proof -
  have "flexible_subset L df (PDict kvs) = apply_filters L (columns df) kvs (rows df)"
    by (cases kvs) (simp_all add: flexible_subset_def truthy_def py_items_def)
  then show ?thesis
    using apply_filters_known [of L "columns df" kvs "rows df"]
    by (simp add: query_data_flexible_def no_data_result_def)
qed

theorem flexible_query_no_data_witness:
  "query_data_flexible ref_lib (Inr demo_df)
     (PDict [(''colour'', PStr ''red''), (''property_name'', PStr ''Building 999'')])
     (PStr ''show'') 200 =
     Inr \<lparr> qr_status = ''no_data'',
           qr_message = Some ''No records found matching the filters.'',
           qr_filters =
             PDict [(''colour'', PStr ''red''), (''property_name'', PStr ''Building 999'')],
           qr_count = 0, qr_total_profit = None, qr_rows = None, qr_showing = None,
           qr_total_rows = None, qr_aggregations = None, qr_counts = None \<rparr>"
  using flexible_query_no_data [of ref_lib demo_df "[]"
      "PDict [(''colour'', PStr ''red''), (''property_name'', PStr ''Building 999'')]"
      "PStr ''show''" 200] demo_flex_999
  by simp

text \<open>
  Claim C6, as stated, fails: the flexible filter \<^verbatim>\<open>month = "2025-M01"\<close> searches the
  month text for the value, letter case ignored, and looks at no other column, while
  \<^verbatim>\<open>compute_total_pnl(year=2025, month=1)\<close> wants the year to be 2025 and the month to
  be equal to "2025-M01". On a frame with a row without year and a row whose month is
  written "2025-m01" the first selects three rows and the second one.
\<close>

theorem month_filter_counterexample:
  "flexible_subset ref_lib lax_df (PDict [(''month'', PStr ''2025-M01'')]) =
     Inr [ledger_row ''Building 17'' ''Tenant 4'' ''revenue'' (Some 2025) ''2025-M01'' 1000,
          ledger_row ''Building 22'' ''Tenant 9'' ''revenue'' None ''2025-M01'' 600,
          ledger_row ''Building 30'' ''Tenant 2'' ''revenue'' (Some 2025) ''2025-m01'' 50] \<and>
   pnl_subset ref_lib lax_df (PInt 2025) (PInt 1) =
     Inr [ledger_row ''Building 17'' ''Tenant 4'' ''revenue'' (Some 2025) ''2025-M01'' 1000]"
  by (simp add: flex_eval_defs pnl_eval_defs lax_df_def sublist_code(3))

lemma pnl_subset_2025_01:
  "pnl_subset L df (PInt 2025) (PInt 1) =
     Inr (filter (\<lambda>r. year r = Some 2025 \<and> month r = ''2025-M01'') (rows df))"
proof -
  have "scalar_eq (cell_of r YEAR_COLUMN) (PInt 2025) \<longleftrightarrow> year r = Some 2025" for r
    by (simp add: scalar_eq_def cell_of_def col_defs split: option.splits)
  moreover have "scalar_eq (cell_of r MONTH_COLUMN) (PStr s) \<longleftrightarrow> month r = s" for r s
    by (simp add: scalar_eq_def cell_of_def col_defs)
  ultimately show ?thesis
    by (simp add: pnl_subset_def filter_eq_def month_str_def format_02d_def py_str_def num_defs
        conj_commute)
qed

text \<open>
  Claim C6, amended. \<^verbatim>\<open>compute_total_pnl(year=2025, month=1)\<close> sums exactly the rows
  whose year is 2025 and whose month is "2025-M01". The flexible filter
  \<^verbatim>\<open>month = "2025-M01"\<close> selects the rows in whose month text the search for
  "2025-M01" succeeds. The two selections are the same when the search finds "2025-M01"
  in itself and every row it selects has month "2025-M01" and year 2025.
\<close>

theorem month_filter_round_trip:
  assumes "re_contains L (PStr ''2025-M01'') = Inr p"
    and "''month'' \<in> set (columns df)"
  shows "pnl_subset L df (PInt 2025) (PInt 1) =
           Inr (filter (\<lambda>r. year r = Some 2025 \<and> month r = ''2025-M01'') (rows df)) \<and>
         flexible_subset L df (PDict [(''month'', PStr ''2025-M01'')]) =
           Inr (filter (\<lambda>r. p (month r)) (rows df)) \<and>
         (p ''2025-M01'' \<and>
          (\<forall>r \<in> set (rows df). p (month r) \<longrightarrow> month r = ''2025-M01'' \<and> year r = Some 2025) \<longrightarrow>
            flexible_subset L df (PDict [(''month'', PStr ''2025-M01'')]) =
              pnl_subset L df (PInt 2025) (PInt 1))"
proof -
  have flex: "flexible_subset L df (PDict [(''month'', PStr ''2025-M01'')]) =
           Inr (filter (\<lambda>r. p (month r)) (rows df))"
    using assms
    by (simp add: flexible_subset_def truthy_def py_items_def filter_contains_def cell_of_def
        col_defs astype_str_def)
  have "filter (\<lambda>r. p (month r)) (rows df) =
        filter (\<lambda>r. year r = Some 2025 \<and> month r = ''2025-M01'') (rows df)"
    if "p ''2025-M01''"
      and "\<forall>r \<in> set (rows df). p (month r) \<longrightarrow> month r = ''2025-M01'' \<and> year r = Some 2025"
    using that by (intro filter_cong) auto
  with flex pnl_subset_2025_01 [of L df] show ?thesis
    by simp
qed

theorem month_filter_round_trip_witness:
  "flexible_subset ref_lib demo_df (PDict [(''month'', PStr ''2025-M01'')]) =
     pnl_subset ref_lib demo_df (PInt 2025) (PInt 1) \<and>
   pnl_subset ref_lib demo_df (PInt 2025) (PInt 1) =
     Inr [ledger_row ''Building 17'' ''Tenant 4'' ''revenue'' (Some 2025) ''2025-M01'' 1000]"
  using month_filter_round_trip [of ref_lib "contains_ci ''2025-M01''" demo_df]
  by (simp add: ref_lib_def demo_df_def REQUIRED_COLUMNS_def ledger_row_def contains_ci_def
      lower_def lower_char_def sublist_code(3))

section \<open>Properties of the nodes\<close>

text \<open>
  Claim C4. With a loaded dataset, \<^verbatim>\<open>compute_total_pnl\<close> with a month and no year
  raises the \<^verbatim>\<open>ValueError\<close> that asks for the year. For the intent \<^verbatim>\<open>total_pnl\<close>
  the retrieval node returns the state with exactly this message in \<open>error\<close>; the
  message does not begin with "System Error", and the branch routes to the error terminal.
\<close>

theorem month_without_year_is_user_error:
  assumes "m \<noteq> PNone"
    and "intent st = Some ''total_pnl''"
    and "dict_get (extracted_params st) ''year'' PNone = PNone"
    and "dict_get (extracted_params st) ''month'' PNone = m"
  shows "compute_total_pnl L (Inr df) PNone m = Inl (ValueError month_requires_year_msg) \<and>
         retrieve_data L (Inr df) st = st \<lparr> error := Some month_requires_year_msg \<rparr> \<and>
         route_after_retrieval (retrieve_data L (Inr df) st) = ''end_with_error'' \<and>
         sublist ''you must also specify the year'' month_requires_year_msg \<and>
         \<not> prefix ''System Error'' month_requires_year_msg"
proof -
  have pnl: "compute_total_pnl L (Inr df) PNone m = Inl (ValueError month_requires_year_msg)"
    using assms(1) by (simp add: compute_total_pnl_def pnl_subset_def)
  have rtry: "retrieve_try L (Inr df) st =
               (extracted_params st, Raised (ValueError month_requires_year_msg))"
    using assms pnl by (simp add: retrieve_try_def Let_def)
  have rd: "retrieve_data L (Inr df) st = st \<lparr> error := Some month_requires_year_msg \<rparr>"
    by (simp add: retrieve_data_def rtry error_text_def)
  have msg: "month_requires_year_msg =
      ''To filter by month, '' @ ''you must also specify the year'' @
      ('' (e.g., '' @ squote @ ''January 2025'' @ squote @ '').'')"
    by (simp add: month_requires_year_msg_def)
  have sub: "sublist ''you must also specify the year'' month_requires_year_msg"
    unfolding msg by (rule sublist_appendI)
  have "\<not> prefix ''System Error'' month_requires_year_msg"
    by (simp add: month_requires_year_msg_def)
  with pnl rd sub show ?thesis
    by (simp add: route_after_retrieval_def error_set_def month_requires_year_msg_def)
qed

theorem month_without_year_is_user_error_witness:
  "retrieve_data ref_lib (Inr demo_df)
     (demo_state ''total_pnl''
        [(''addresses'', PList []), (''year'', PNone), (''month'', PInt 3),
         (''filters'', PDict []), (''action'', PStr ''show'')]) =
   (demo_state ''total_pnl''
        [(''addresses'', PList []), (''year'', PNone), (''month'', PInt 3),
         (''filters'', PDict []), (''action'', PStr ''show'')])
     \<lparr> error := Some (''To filter by month, you must also specify the year (e.g., '' @
                      squote @ ''January 2025'' @ squote @ '').'') \<rparr>"
  using month_without_year_is_user_error [of "PInt 3"
      "demo_state ''total_pnl''
        [(''addresses'', PList []), (''year'', PNone), (''month'', PInt 3),
         (''filters'', PDict []), (''action'', PStr ''show'')]" ref_lib demo_df]
  by (simp add: demo_state_def dict_get_def month_requires_year_msg_def)

lemma compare_difference:
  "compare_assets_by_price L D a b = Inr cmp \<Longrightarrow>
     difference cmp = av_value (asset_1 cmp) - av_value (asset_2 cmp)"
  by (auto simp: compare_assets_by_price_def split: sum.splits)

text \<open>
  Claim C9. For the intent \<^verbatim>\<open>price_comparison\<close> the answer ends with the sentence
  "The property **X** generated D more profit.", where D is the formatted absolute
  difference of the two totals and X is the first property exactly when its total is
  strictly greater, the second property otherwise. For equal totals, with zero formatted
  as "0.00", the sentence names the second property and says "0.00 more profit".
\<close>

theorem comparison_tie_names_second:
  assumes "compare_assets_by_price L D a b = Inr cmp"
    and "intent st = Some ''price_comparison''"
    and "\<not> error_set st"
    and "rd_price_comparison (retrieved_data st) = Some cmp"
  shows "\<exists>listing.
           compute_answer L st =
             Inr (st \<lparr> answer := PStr (listing @
               ''The property **'' @
               (if av_value (asset_2 cmp) < av_value (asset_1 cmp)
                then astype_str L (av_property_name (asset_1 cmp))
                else astype_str L (av_property_name (asset_2 cmp))) @
               ''** generated '' @
               fmt_2f L \<bar>av_value (asset_1 cmp) - av_value (asset_2 cmp)\<bar> @
               '' more profit.'') \<rparr>) \<and>
           (av_value (asset_1 cmp) = av_value (asset_2 cmp) \<and> fmt_2f L 0 = ''0.00'' \<longrightarrow>
              compute_answer L st =
                Inr (st \<lparr> answer := PStr (listing @
                  ''The property **'' @ astype_str L (av_property_name (asset_2 cmp)) @
                  ''** generated 0.00 more profit.'') \<rparr>))"
proof -
  let ?listing =
    "''**Comparison Result:**'' @ nl @ nl @
     ''* **'' @ astype_str L (av_property_name (asset_1 cmp)) @ ''**: '' @
       fmt_2f L (av_value (asset_1 cmp)) @ '' profit'' @ nl @
     ''* **'' @ astype_str L (av_property_name (asset_2 cmp)) @ ''**: '' @
       fmt_2f L (av_value (asset_2 cmp)) @ '' profit'' @ nl @ nl"
  have "compute_answer L st =
          Inr (st \<lparr> answer := PStr (?listing @
               ''The property **'' @
               (if av_value (asset_2 cmp) < av_value (asset_1 cmp)
                then astype_str L (av_property_name (asset_1 cmp))
                else astype_str L (av_property_name (asset_2 cmp))) @
               ''** generated '' @
               fmt_2f L \<bar>av_value (asset_1 cmp) - av_value (asset_2 cmp)\<bar> @
               '' more profit.'') \<rparr>)"
    using assms(2-4) compare_difference [OF assms(1)]
    by (simp add: compute_answer_def comparison_text_def Let_def)
  then show ?thesis
    by (intro exI [of _ ?listing]) auto
qed

theorem comparison_tie_names_second_witness:
  "\<exists>listing.
     compute_answer ref_lib
       ((demo_state ''price_comparison'' [])
          \<lparr> retrieved_data := empty_retrieved \<lparr> rd_price_comparison := Some tie_cmp \<rparr> \<rparr>) =
     Inr ((demo_state ''price_comparison'' [])
          \<lparr> retrieved_data := empty_retrieved \<lparr> rd_price_comparison := Some tie_cmp \<rparr>,
            answer := PStr (listing @
              ''The property **Building 22** generated 0.00 more profit.'') \<rparr>)"
proof -
  let ?st = "(demo_state ''price_comparison'' [])
          \<lparr> retrieved_data := empty_retrieved \<lparr> rd_price_comparison := Some tie_cmp \<rparr> \<rparr>"
  have c: "compare_assets_by_price ref_lib (Inr tie_df) (PStr ''Building 17'')
             (PStr ''Building 22'') = Inr tie_cmp"
    by (simp add: tie_compare tie_cmp_def)
  have "intent ?st = Some ''price_comparison''" "\<not> error_set ?st"
    "rd_price_comparison (retrieved_data ?st) = Some tie_cmp"
    by (simp_all add: demo_state_def initial_state_def error_set_def)
  from comparison_tie_names_second [OF c this] ref_fmt_0 show ?thesis
    by (auto simp: tie_cmp_def astype_str_def)
qed

lemma select_mask_subset: "set (select_mask xs bs) \<subseteq> set xs"
  by (auto simp: select_mask_def dest: set_zip_leftD)

lemma filter_eq_subset: "filter_eq L c v rs = Inr rs' \<Longrightarrow> set rs' \<subseteq> set rs"
  using select_mask_subset [of rs]
  by (auto simp: filter_eq_def split: pyval.splits sum.splits)

lemma filter_contains_subset: "filter_contains L c v rs = Inr rs' \<Longrightarrow> set rs' \<subseteq> set rs"
  by (auto simp: filter_contains_def split: sum.splits)

lemma apply_filters_subset:
  "apply_filters L cols kvs sub = Inr sub' \<Longrightarrow> set sub' \<subseteq> set sub"
proof (induction L cols kvs sub rule: apply_filters.induct)
  case (1 L cols sub)
  then show ?case by simp
next
  case (2 L cols column v fs sub)
  show ?case
  proof (cases "column \<in> set cols")
    case False
    with 2 show ?thesis by simp
  next
    case True
    show ?thesis
    proof (cases v)
      case (PStr s)
      with 2 True show ?thesis
        by (auto split: sum.splits dest!: filter_contains_subset)
    qed (use 2 True in \<open>auto split: sum.splits dest!: filter_eq_subset\<close>)
  qed
qed

lemma apply_filters_append:
  "apply_filters L cols (kvs @ kvs') sub =
     (case apply_filters L cols kvs sub of
        Inl e \<Rightarrow> Inl e
      | Inr sub' \<Rightarrow> apply_filters L cols kvs' sub')"
  by (induction L cols kvs sub rule: apply_filters.induct) (auto split: sum.splits)

lemma dict_set_fresh: "k \<notin> fst ` set kvs \<Longrightarrow> dict_set kvs k v = kvs @ [(k, v)]"
  by (induction kvs) auto

lemma list_ex_key: "list_ex (\<lambda>kv. fst kv = k) kvs \<longleftrightarrow> k \<in> fst ` set kvs"
  by (auto simp: list_ex_iff)

lemma month_format_chars:
  assumes "month_format s" and "c \<in> set s"
  shows "is_digit c \<or> c = CHR ''-'' \<or> c = CHR ''M''"
proof -
  from assms(2) obtain i where i: "i < length s" "c = s ! i"
    by (auto simp: in_set_conv_nth)
  from assms(1) have len: "length s = 8"
    and d1: "list_all is_digit (take 4 s)" and d2: "list_all is_digit (drop 6 s)"
    and c4: "s ! 4 = CHR ''-''" and c5: "s ! 5 = CHR ''M''"
    by (auto simp: month_format_def)
  consider "i < 4" | "i = 4" | "i = 5" | "6 \<le> i" by linarith
  then show ?thesis
  proof cases
    case 1
    then have "s ! i \<in> set (take 4 s)"
      using len by (auto simp: in_set_conv_nth intro!: exI [of _ i])
    with d1 i show ?thesis by (auto simp: list_all_iff)
  next
    case 4
    then have "s ! i \<in> set (drop 6 s)"
      using len i by (auto simp: in_set_conv_nth intro!: exI [of _ "i - 6"])
    with d2 i show ?thesis by (auto simp: list_all_iff)
  qed (use i c4 c5 in auto)
qed

lemma month_format_no_none:
  assumes "month_format s"
  shows "\<not> contains_ci (''None-M'' @ t) s"
proof
  assume "contains_ci (''None-M'' @ t) s"
  then have "set (lower (''None-M'' @ t)) \<subseteq> set (lower s)"
    unfolding contains_ci_def by (rule set_mono_sublist)
  moreover have "CHR ''n'' \<in> set (lower (''None-M'' @ t))"
    by (simp add: lower_def lower_char_def)
  ultimately obtain c where c: "c \<in> set s" "lower_char c = CHR ''n''"
    by (auto simp: lower_def)
  from month_format_chars [OF assms c(1)] c(2) show False
    by (auto simp: is_digit_def lower_char_def)
qed

text \<open>
  Claim C10. For the intent \<^verbatim>\<open>data_query\<close>, an integer month without a year is no
  error. When the filters have no month entry, the node adds the entry
  \<^verbatim>\<open>month = "None-M<mm>"\<close>. If the other filters evaluate, the search for that text
  is the plain search for it with letter case ignored, and every month of the frame has
  the form of four digits, "-M" and two digits, then no row is selected: the node stores
  the \<^verbatim>\<open>no_data\<close> result and leaves \<open>error\<close> as it was.
\<close>

theorem data_query_month_without_year:
  assumes "intent st = Some ''data_query''"
    and "dict_get (extracted_params st) ''year'' PNone = PNone"
    and "dict_get (extracted_params st) ''month'' PNone = PInt i"
    and "dict_get (extracted_params st) ''filters'' (PDict []) = PDict kvs"
    and "''month'' \<notin> fst ` set kvs"
    and "apply_filters L (columns df) kvs (rows df) = Inr sub"
    and "''month'' \<in> set (columns df)"
    and "re_contains L (PStr (''None-M'' @ pad_02d i)) =
           Inr (contains_ci (''None-M'' @ pad_02d i))"
    and "\<forall>r \<in> set (rows df). month_format (month r)"
  shows "retrieve_data L (Inr df) st =
           st \<lparr> extracted_params :=
                  store_filters (extracted_params st)
                    (PDict (kvs @ [(''month'', PStr (''None-M'' @ pad_02d i))])),
                retrieved_data :=
                  empty_retrieved \<lparr> rd_data_query :=
                    Some (no_data_result
                      (PDict (kvs @ [(''month'', PStr (''None-M'' @ pad_02d i))]))) \<rparr> \<rparr>"
proof -
  let ?ms = "''None-M'' @ pad_02d i"
  let ?f = "PDict (kvs @ [(''month'', PStr ?ms)])"
  have ay: "add_year (PDict kvs) PNone = Inr (PDict kvs)"
    by (simp add: add_year_def)
  have am: "add_month L (PDict kvs) PNone (PInt i) = Inr ?f"
    using assms(5)
    by (simp add: add_month_def py_in_def list_ex_key is_int_def month_str_def format_02d_def
        py_str_def py_setitem_def dict_set_fresh)
  have "filter (\<lambda>r. contains_ci ?ms (astype_str L (cell_of r ''month''))) sub = []"
  proof -
    have "\<not> contains_ci ?ms (astype_str L (cell_of r ''month''))" if "r \<in> set sub" for r
    proof -
      from that apply_filters_subset [OF assms(6)] assms(9) have "month_format (month r)"
        by auto
      then show ?thesis
        using month_format_no_none [of "month r" "pad_02d i"]
        by (simp add: cell_of_def col_defs astype_str_def)
    qed
    then show ?thesis by (simp add: filter_empty_conv)
  qed
  then have "flexible_subset L df ?f = Inr []"
    using assms(6-8)
    by (simp add: flexible_subset_def truthy_def py_items_def apply_filters_append
        filter_contains_def)
  then have q: "query_data_flexible L (Inr df) ?f (dict_get (extracted_params st) ''action''
                  (PStr ''show'')) 200 = Inr (no_data_result ?f)"
    by (simp add: query_data_flexible_def)
  have "retrieve_try L (Inr df) st =
          (store_filters (extracted_params st) ?f,
           Done (empty_retrieved \<lparr> rd_data_query := Some (no_data_result ?f) \<rparr>))"
    using assms(1-4) ay am q by (simp add: retrieve_try_def Let_def)
  then show ?thesis
    by (simp add: retrieve_data_def)
qed

theorem data_query_month_without_year_witness:
  "retrieved_data (retrieve_data ref_lib (Inr demo_df)
     (demo_state ''data_query''
        [(''addresses'', PList []), (''year'', PNone), (''month'', PInt 3),
         (''filters'', PDict [(''property_name'', PStr ''Building 17'')]),
         (''action'', PStr ''show'')])) =
     empty_retrieved \<lparr> rd_data_query :=
       Some (no_data_result
         (PDict [(''property_name'', PStr ''Building 17''), (''month'', PStr ''None-M03'')])) \<rparr> \<and>
   error (retrieve_data ref_lib (Inr demo_df)
     (demo_state ''data_query''
        [(''addresses'', PList []), (''year'', PNone), (''month'', PInt 3),
         (''filters'', PDict [(''property_name'', PStr ''Building 17'')]),
         (''action'', PStr ''show'')])) = None"
proof -
  let ?st = "demo_state ''data_query''
        [(''addresses'', PList []), (''year'', PNone), (''month'', PInt 3),
         (''filters'', PDict [(''property_name'', PStr ''Building 17'')]),
         (''action'', PStr ''show'')]"
  have "retrieve_data ref_lib (Inr demo_df) ?st =
          ?st \<lparr> extracted_params :=
                  store_filters (extracted_params ?st)
                    (PDict ([(''property_name'', PStr ''Building 17'')] @
                            [(''month'', PStr (''None-M'' @ pad_02d 3))])),
                retrieved_data :=
                  empty_retrieved \<lparr> rd_data_query :=
                    Some (no_data_result
                      (PDict ([(''property_name'', PStr ''Building 17'')] @
                              [(''month'', PStr (''None-M'' @ pad_02d 3))]))) \<rparr> \<rparr>"
    by (rule data_query_month_without_year [OF _ _ _ _ _ demo_filter_17 _ _ demo_months])
       (simp_all add: demo_state_def dict_get_def demo_df_def REQUIRED_COLUMNS_def ref_lib_def)
  then show ?thesis
    by (simp add: demo_state_def initial_state_def num_defs)
qed








lemma map_of_dict_set: "map_of (dict_set kvs k v) = (map_of kvs)(k \<mapsto> v)"
  by (induction kvs) (auto simp: fun_eq_iff)

lemma dict_get_dict_set_other:
  "k' \<noteq> k \<Longrightarrow> dict_get (dict_set kvs k v) k' d = dict_get kvs k' d"
  by (simp add: dict_get_def map_of_dict_set)








end
